theory Spec2Isabelle
  imports Main
begin

section \<open>Text helpers of the Go standard library used by the formatter\<close>

text \<open>
  Go strings are byte sequences; they are modelled as \<open>string\<close> (a list of bytes).
  \<open>Join\<close> is \<open>strings.Join\<close>, \<open>HasPrefix\<close> is \<open>strings.HasPrefix\<close>,
  \<open>ReplaceFirst s new\<close> is \<open>strings.Replace(s, "?", new, 1)\<close>.
  \<open>ToLower\<close> is \<open>strings.ToLower\<close>: a string whose bytes are all below 0x80 has
  its letters A to Z lower-cased; any other string goes through the Unicode case
  mapping of the Go library (\<open>strings.Map(unicode.ToLower, s)\<close>), which is the
  parameter \<open>unicodeLower\<close>.
  \<open>showInt\<close> is the \<open>%d\<close> verb of \<open>fmt.Sprintf\<close>.
\<close>

fun Join :: "string list \<Rightarrow> string \<Rightarrow> string" where
  "Join [] sep = []"
| "Join [x] sep = x"
| "Join (x # y # ys) sep = x @ sep @ Join (y # ys) sep"

definition HasPrefix :: "string \<Rightarrow> string \<Rightarrow> bool" where
  "HasPrefix s p = (take (length p) s = p)"

fun ReplaceFirst :: "string \<Rightarrow> string \<Rightarrow> string" where
  "ReplaceFirst [] new = []"
| "ReplaceFirst (c # cs) new = (if c = CHR ''?'' then new @ cs else c # ReplaceFirst cs new)"

definition ToLowerChar :: "char \<Rightarrow> char" where
  "ToLowerChar c =
     (case map_of (zip ''ABCDEFGHIJKLMNOPQRSTUVWXYZ'' ''abcdefghijklmnopqrstuvwxyz'') c of
        Some l \<Rightarrow> l
      | None \<Rightarrow> c)"

definition isASCII :: "string \<Rightarrow> bool" where
  "isASCII s = list_all (\<lambda>c. \<not> digit7 c) s"

definition ToLower :: "(string \<Rightarrow> string) \<Rightarrow> string \<Rightarrow> string" where
  "ToLower unicodeLower s = (if isASCII s then map ToLowerChar s else unicodeLower s)"

definition backquote :: "string \<Rightarrow> string" where
  \<comment> \<open>\<open>fmt.Sprintf("`%s`", s)\<close>\<close>
  "backquote s = [CHR 0x60] @ s @ [CHR 0x60]"

fun showNat :: "nat \<Rightarrow> string" where
  "showNat n =
     (if n < 10 then [''0123456789'' ! n]
      else showNat (n div 10) @ [''0123456789'' ! (n mod 10)])"

declare showNat.simps [simp del]

definition showInt :: "int \<Rightarrow> string" where
  "showInt i = (if i < 0 then ''-'' @ showNat (nat (- i)) else showNat (nat i))"

section \<open>Name paths\<close>

definition FormatName :: "string list \<Rightarrow> string" where
  "FormatName namePath = Join namePath ''_''"

text \<open>
  The loop of \<open>MergeNamePath\<close>: \<open>merged\<close> collects the segments of \<open>namePath\<close> and the
  loop breaks at the first segment equal to \<open>queryPath[0]\<close>.
\<close>

fun MergeNamePath_loop :: "string \<Rightarrow> string list \<Rightarrow> string list \<Rightarrow> string list" where
  "MergeNamePath_loop q0 [] merged = merged"
| "MergeNamePath_loop q0 (path # rest) merged =
     (if q0 = path then merged else MergeNamePath_loop q0 rest (merged @ [path]))"

definition MergeNamePath :: "string list \<Rightarrow> string list \<Rightarrow> string list" where
  "MergeNamePath namePath queryPath =
     (case queryPath of
        [] \<Rightarrow> namePath
      | q0 # _ \<Rightarrow> MergeNamePath_loop q0 namePath [] @ queryPath)"

section \<open>The resolved tree\<close>

text \<open>
  The tree is produced by the analyzer (package \<open>resolved_ast\<close>) and only read here.
  The enumerations carry one more constructor for every code that the formatter does
  not name, since they are integers in Go.
\<close>

datatype column = Column (Name: string) (TableName: string)

datatype set_operation_type =
    SetOperationTypeUnionAll | SetOperationTypeUnionDistinct
  | SetOperationTypeIntersectAll | SetOperationTypeIntersectDistinct
  | SetOperationTypeExceptAll | SetOperationTypeExceptDistinct
  | SetOperationTypeOther int

datatype boundary_type =
    UnboundedPrecedingType | OffsetPrecedingType | CurrentRowType
  | OffsetFollowingType | UnboundedFollowingType
  | BoundaryTypeOther int

datatype subquery_type = SubqueryTypeExists | SubqueryTypeOther int

datatype error =
    UnexpectedArgumentNodeType
  | FailedToFindTableName
  | UnexpectedBoundaryType boundary_type
  | NilDereference
  | IndexOutOfRange

text \<open>
  Every formatter type of \<open>formatter.go\<close> is a wrapper \<open>struct { node *ast.XNode }\<close>;
  a constructor of \<open>node\<close> is such a wrapper and its argument is the payload \<open>n.node\<close>,
  \<open>None\<close> when the pointer is nil. A payload lists what \<open>FormatSQL\<close> reads of it, in
  this order:
  \<^item> \<open>LiteralNode\<close>: \<open>Value()\<close> (handed to the value encoder);
  \<^item> \<open>ParameterNode\<close>: \<open>Name()\<close>; \<open>ColumnRefNode\<close>: \<open>Column()\<close>;
  \<^item> \<open>FunctionCallNode\<close>: \<open>ArgumentList()\<close>, the type name of
    \<open>Signature().ResultType()\<close>, \<open>Function().FullName(false)\<close>;
  \<^item> \<open>AggregateFunctionCallNode\<close>: the same three, then \<open>OrderByItemList()\<close> (the column
    of \<open>ColumnRef()\<close> and \<open>IsDescending()\<close> of each item), \<open>Distinct()\<close>, \<open>Limit()\<close>;
  \<^item> \<open>AnalyticFunctionCallNode\<close>: the same three, then \<open>Distinct()\<close> and \<open>WindowFrame()\<close>
    (\<open>FrameUnit()\<close>, and \<open>BoundaryType()\<close> with \<open>Expression()\<close> of \<open>StartExpr()\<close> and of
    \<open>EndExpr()\<close>);
  \<^item> \<open>GetStructFieldNode\<close>: \<open>Expr()\<close>, the type name of \<open>Type()\<close>, \<open>FieldIdx()\<close>;
  \<^item> \<open>SubqueryExprNode\<close>: \<open>Subquery()\<close>, \<open>SubqueryType()\<close>;
  \<^item> \<open>ArrayScanNode\<close>: \<open>ArrayExpr()\<close>, \<open>ElementColumn()\<close>;
  \<^item> \<open>FilterScanNode\<close>: \<open>InputScan()\<close>, \<open>FilterExpr()\<close>;
  \<^item> \<open>AggregateScanNode\<close>: \<open>AggregateList()\<close> (computed columns), \<open>InputScan()\<close>;
  \<^item> \<open>SetOperationItemNode\<close>: \<open>Scan()\<close>;
  \<^item> \<open>SetOperationScanNode\<close>: \<open>OpType()\<close>, \<open>InputItemList()\<close> (the payload of each item);
  \<^item> \<open>WithRefScanNode\<close>: \<open>WithQueryName()\<close>;
  \<^item> \<open>AnalyticScanNode\<close>: \<open>InputScan()\<close>, \<open>FunctionGroupList()\<close> (group payloads);
  \<^item> \<open>ComputedColumnNode\<close>: \<open>Expr()\<close>, \<open>Column()\<close>; \<open>OutputColumnNode\<close>: \<open>Name()\<close>;
  \<^item> \<open>ProjectScanNode\<close>: \<open>ExprList()\<close>, \<open>InputScan()\<close>, \<open>ColumnList()\<close>;
  \<^item> \<open>QueryStmtNode\<close>: \<open>Query()\<close>;
  \<^item> \<open>WithScanNode\<close>: \<open>WithEntryList()\<close>, \<open>Query()\<close>;
    \<open>WithEntryNode\<close>: \<open>WithQueryName()\<close>, \<open>WithSubquery()\<close>;
  \<^item> \<open>AnalyticFunctionGroupNode\<close>: the columns of \<open>PartitionBy().PartitionByList()\<close>
    (\<open>None\<close> when \<open>PartitionBy()\<close> is nil), the items of \<open>OrderBy().OrderByItemList()\<close>
    likewise, \<open>AnalyticFunctionList()\<close> (computed columns);
  \<^item> \<open>DMLValueNode\<close>: \<open>Value()\<close>; \<open>InsertRowNode\<close>: \<open>ValueList()\<close> (the \<open>Value()\<close> of each);
  \<^item> \<open>InsertStmtNode\<close>: \<open>InsertColumnList()\<close>, \<open>RowList()\<close>; \<open>DeleteStmtNode\<close>: \<open>WhereExpr()\<close>;
  \<^item> \<open>UpdateItemNode\<close>: \<open>Target()\<close>, the payload of \<open>SetValue()\<close>;
    \<open>UpdateStmtNode\<close>: \<open>UpdateItemList()\<close>, \<open>WhereExpr()\<close>;
  \<^item> \<open>NoOpNode\<close>: each of the 152 remaining formatter types, named by its Go type
    name; their \<open>FormatSQL\<close> is the single statement \<open>return "", nil\<close>.
  Elements of the typed lists are payloads, never nil pointers.
\<close>

datatype node =
    LiteralNode "string option"
  | ParameterNode "string option"
  | ColumnRefNode "column option"
  | FunctionCallNode "(node list \<times> string \<times> string) option"
  | AggregateFunctionCallNode
      "(node list \<times> string \<times> string \<times> (column \<times> bool) list \<times> bool \<times> node option) option"
  | AnalyticFunctionCallNode
      "(node list \<times> string \<times> string \<times> bool
        \<times> (int \<times> (boundary_type \<times> node) \<times> (boundary_type \<times> node)) option) option"
  | GetStructFieldNode "(node \<times> string \<times> int) option"
  | SubqueryExprNode "(node \<times> subquery_type) option"
  | TableScanNode "unit option"
  | ArrayScanNode "(node \<times> column) option"
  | FilterScanNode "(node \<times> node) option"
  | AggregateScanNode "((node \<times> column) list \<times> node) option"
  | SetOperationItemNode "node option"
  | SetOperationScanNode "(set_operation_type \<times> node list) option"
  | WithRefScanNode "string option"
  | AnalyticScanNode
      "(node \<times> (column list option \<times> (column \<times> bool) list option \<times> (node \<times> column) list) list) option"
  | ComputedColumnNode "(node \<times> column) option"
  | OutputColumnNode "string option"
  | ProjectScanNode "((node \<times> column) list \<times> node \<times> column list) option"
  | QueryStmtNode "node option"
  | WithScanNode "((string \<times> node) list \<times> node) option"
  | WithEntryNode "(string \<times> node) option"
  | AnalyticFunctionGroupNode
      "(column list option \<times> (column \<times> bool) list option \<times> (node \<times> column) list) option"
  | DMLValueNode "node option"
  | InsertRowNode "node list option"
  | InsertStmtNode "(column list \<times> node list list) option"
  | DeleteStmtNode "node option"
  | UpdateItemNode "(node \<times> node option) option"
  | UpdateStmtNode "((node \<times> node option) list \<times> node) option"
  | ArgumentRefNode "unit option"
  | NoOpNode string

section \<open>The translation context\<close>

text \<open>
  Modelled from the spec: the accessors of the \<open>context.Context\<close> values
  (\<open>fullNamePathFromContext\<close>, \<open>namePathFromContext\<close>, \<open>funcMapFromContext\<close>,
  \<open>columnRefMap\<close>, \<open>analyticOrderColumnNamesFromContext\<close>, \<open>analyticTableNameFromContext\<close>,
  \<open>analyticPartitionColumnNamesFromContext\<close> and the \<open>with...\<close> setters) are not in
  \<open>formatter.go\<close>. The spec gives the context a name-path cursor (paths and an index),
  the declared local path, the column-expression map, and the analytic accumulation
  (correlation table name, ordered column list, partition column list).

  What \<open>FormatSQL\<close> changes through a pointer or a map (\<open>fullpath.idx\<close>, the column map,
  \<open>orderColumnNames.values\<close>) is the \<open>state\<close>, returned updated. What it rebinds with a
  \<open>with...\<close> setter (a new \<open>ctx\<close>, visible to callees only) is in \<open>env\<close>, with what it
  only reads. The catalogs \<open>normalFuncMap\<close>, \<open>aggregateFuncMap\<close>, \<open>windowFuncMap\<close>, the value
  encoder \<open>JSONFromZetaSQLValue\<close> and the \<open>getWindow...OptionFuncSQL\<close> text builders are
  declared in other files, and the Unicode case mapping \<open>unicodeToLower\<close> is the Go
  library's: they are fields of \<open>env\<close>, so every theorem holds for any choice of
  them.
\<close>

record env =
  paths :: "string list list"
  namePath :: "string list"
  funcMap :: "string \<rightharpoonup> string"
  normalFuncMap :: "string set"
  aggregateFuncMap :: "string set"
  windowFuncMap :: "string set"
  analyticTableName :: string
  analyticPartitionColumnNames :: "string list"
  JSONFromZetaSQLValue :: "string \<Rightarrow> string"
  getWindowPartitionOptionFuncSQL :: "string \<Rightarrow> string"
  getWindowOrderByOptionFuncSQL :: "string \<Rightarrow> string"
  getWindowFrameUnitOptionFuncSQL :: "int \<Rightarrow> string"
  getWindowBoundaryStartOptionFuncSQL :: "boundary_type \<Rightarrow> string \<Rightarrow> string"
  getWindowBoundaryEndOptionFuncSQL :: "boundary_type \<Rightarrow> string \<Rightarrow> string"
  getWindowRowIDOptionFuncSQL :: string
  unicodeToLower :: "string \<Rightarrow> string"

record state =
  idx :: nat
  columnRefMap :: "string \<rightharpoonup> string"
  orderColumnNames :: "string list"

type_synonym 'a result = "error + ('a \<times> state)"

section \<open>Fragments shared by several formatters\<close>

text \<open>
  \<open>consumePath\<close> is the block repeated in the table scan, the three DML statements and
  the three function calls: read \<open>fullpath.paths[fullpath.idx]\<close> (a run-time panic when
  the index is out of range), merge it with the declared path, flatten it, and
  increment \<open>fullpath.idx\<close>.

  \<open>resolveCallee\<close> is the block repeated in the three function calls (lines 92 to 120,
  140 to 168 and 225 to 253), which differ in the prefix and the catalog only: it
  yields the callee name, or the inlined body with which the formatter returns at
  once. \<open>inlineBody\<close> is its loop over the arguments.
\<close>

definition consumePath :: "env \<Rightarrow> state \<Rightarrow> string result" where
  "consumePath e s =
     (if idx s < length (paths e)
      then Inr (FormatName (MergeNamePath (namePath e) (paths e ! idx s)), s\<lparr>idx := idx s + 1\<rparr>)
      else Inl IndexOutOfRange)"

definition resultTypeFamily :: "env \<Rightarrow> string \<Rightarrow> string" where
  "resultTypeFamily e typeName =
     (let resultType = ToLower (unicodeToLower e) typeName
      in if HasPrefix resultType ''struct'' then ''struct'' else resultType)"

definition mangle :: "string \<Rightarrow> string \<Rightarrow> string \<Rightarrow> string" where
  "mangle prefix bare resultType = prefix @ bare @ ''_'' @ resultType"

fun inlineBody :: "string \<Rightarrow> string list \<Rightarrow> string" where
  "inlineBody body [] = body"
| "inlineBody body (arg # args) = inlineBody (ReplaceFirst body arg) args"

datatype callee = Call string | Inlined string

definition resolveCallee ::
  "string \<Rightarrow> string set \<Rightarrow> string \<Rightarrow> string \<Rightarrow> string list \<Rightarrow> env \<Rightarrow> state \<Rightarrow> callee result" where
  "resolveCallee prefix catalog fullName typeName args e s =
     (let resultType = resultTypeFamily e typeName
      in if HasPrefix fullName ''$'' then Inr (Call (mangle prefix (drop 1 fullName) resultType), s)
         else if fullName \<in> catalog then Inr (Call (mangle prefix fullName resultType), s)
         else case consumePath e s of
                Inl err \<Rightarrow> Inl err
              | Inr (funcName, s1) \<Rightarrow>
                  (case funcMap e funcName of
                     Some body \<Rightarrow> Inr (Inlined (''( '' @ inlineBody body args @ '' )''), s1)
                   | None \<Rightarrow> Inr (Call funcName, s1)))"

definition formatCall :: "string \<Rightarrow> string list \<Rightarrow> string" where
  "formatCall funcName args = funcName @ ''('' @ Join args '','' @ '')''"

definition formatColumnRef :: "column option \<Rightarrow> string" where
  "formatColumnRef p = (case p of None \<Rightarrow> [] | Some c \<Rightarrow> backquote (Name c))"

fun projectColumns :: "column list \<Rightarrow> (string \<rightharpoonup> string) \<Rightarrow> string list \<Rightarrow> string list \<times> (string \<rightharpoonup> string)" where
  "projectColumns [] columnMap columns = (columns, columnMap)"
| "projectColumns (col # cols) columnMap columns =
     (case columnMap (Name col) of
        Some ref \<Rightarrow> projectColumns cols (columnMap(Name col := None)) (columns @ [ref])
      | None \<Rightarrow> projectColumns cols columnMap (columns @ [backquote (Name col)]))"

definition setOperationKeyword :: "set_operation_type \<Rightarrow> string" where
  "setOperationKeyword t =
     (case t of
        SetOperationTypeUnionAll \<Rightarrow> ''UNION ALL''
      | SetOperationTypeUnionDistinct \<Rightarrow> ''UNION DISTINCT''
      | SetOperationTypeIntersectAll \<Rightarrow> ''INTERSECT ALL''
      | SetOperationTypeIntersectDistinct \<Rightarrow> ''INTERSECT DISTINCT''
      | SetOperationTypeExceptAll \<Rightarrow> ''EXCEPT ALL''
      | SetOperationTypeExceptDistinct \<Rightarrow> ''EXCEPT DISTINCT''
      | SetOperationTypeOther _ \<Rightarrow> ''UNKONWN'')"

definition withTableNames :: "string list \<Rightarrow> env \<Rightarrow> env" where
  "withTableNames names e = foldl (\<lambda>e' t. e'\<lparr>analyticTableName := t\<rparr>) e names"

definition enterGroup ::
  "column list option \<Rightarrow> (column \<times> bool) list option \<Rightarrow> env \<Rightarrow> state \<Rightarrow> env \<times> state" where
  "enterGroup PartitionBy OrderBy e s =
     (let (e1, s1) =
            (case PartitionBy of
               None \<Rightarrow> (e, s)
             | Some PartitionByList \<Rightarrow>
                 (let partitionColumns = map (\<lambda>c. backquote (Name c)) PartitionByList
                  in ((withTableNames (map TableName PartitionByList) e)
                        \<lparr>analyticPartitionColumnNames := partitionColumns\<rparr>,
                      s\<lparr>orderColumnNames := orderColumnNames s @ partitionColumns\<rparr>)))
      in (case OrderBy of
            None \<Rightarrow> (e1, s1)
          | Some OrderByItemList \<Rightarrow>
              (let orderByColumns = map (\<lambda>item. backquote (Name (fst item))) OrderByItemList
               in (withTableNames (map (\<lambda>item. TableName (fst item)) OrderByItemList) e1,
                   s1\<lparr>orderColumnNames := orderColumnNames s1 @ orderByColumns\<rparr>))))"

definition formatAnalyticCall :: "string \<Rightarrow> string list \<Rightarrow> string \<Rightarrow> string" where
  "formatAnalyticCall funcName args tableName =
     ''( SELECT '' @ funcName @ ''('' @ Join args '','' @ '') FROM '' @ tableName @ '' )''"

section \<open>Loops\<close>

text \<open>
  \<open>forEach body xs\<close> is the Go loop that formats every element of \<open>xs\<close> in order,
  returns at the first error and appends each text to a slice; \<open>forEachCtx\<close> is the same
  loop where the body also rebinds \<open>ctx\<close>.
\<close>

fun forEach :: "('a \<Rightarrow> state \<Rightarrow> string result) \<Rightarrow> 'a list \<Rightarrow> state \<Rightarrow> string list result" where
  "forEach body [] s = Inr ([], s)"
| "forEach body (x # xs) s =
     (case body x s of
        Inl err \<Rightarrow> Inl err
      | Inr (sql, s1) \<Rightarrow>
          (case forEach body xs s1 of
             Inl err \<Rightarrow> Inl err
           | Inr (sqls, s2) \<Rightarrow> Inr (sql # sqls, s2)))"

fun forEachCtx ::
  "('a \<Rightarrow> env \<Rightarrow> state \<Rightarrow> error + (string \<times> env \<times> state)) \<Rightarrow> 'a list \<Rightarrow> env \<Rightarrow> state
   \<Rightarrow> error + (string list \<times> env \<times> state)" where
  "forEachCtx body [] e s = Inr ([], e, s)"
| "forEachCtx body (x # xs) e s =
     (case body x e s of
        Inl err \<Rightarrow> Inl err
      | Inr (sql, e1, s1) \<Rightarrow>
          (case forEachCtx body xs e1 s1 of
             Inl err \<Rightarrow> Inl err
           | Inr (sqls, e2, s2) \<Rightarrow> Inr (sql # sqls, e2, s2)))"

definition getWindowBoundaryOptionFuncSQL ::
  "(node \<Rightarrow> state \<Rightarrow> string result) \<Rightarrow> env \<Rightarrow> boundary_type \<times> node \<Rightarrow> bool \<Rightarrow> state \<Rightarrow> string result" where
  "getWindowBoundaryOptionFuncSQL format e expr isStart s =
     (let typ = fst expr
      in case typ of
           OffsetPrecedingType \<Rightarrow>
             (case format (snd expr) s of
                Inl err \<Rightarrow> Inl err
              | Inr (literal, s1) \<Rightarrow>
                  Inr (if isStart then getWindowBoundaryStartOptionFuncSQL e typ literal
                       else getWindowBoundaryEndOptionFuncSQL e typ literal, s1))
         | OffsetFollowingType \<Rightarrow>
             (case format (snd expr) s of
                Inl err \<Rightarrow> Inl err
              | Inr (literal, s1) \<Rightarrow>
                  Inr (if isStart then getWindowBoundaryStartOptionFuncSQL e typ literal
                       else getWindowBoundaryEndOptionFuncSQL e typ literal, s1))
         | BoundaryTypeOther _ \<Rightarrow> Inl (UnexpectedBoundaryType typ)
         | _ \<Rightarrow>
             Inr (if isStart then getWindowBoundaryStartOptionFuncSQL e typ []
                  else getWindowBoundaryEndOptionFuncSQL e typ [], s))"

lemma forEach_cong [fundef_cong]:
  "xs = ys \<Longrightarrow> s = t \<Longrightarrow> (\<And>x u. x \<in> set ys \<Longrightarrow> body x u = body' x u)
   \<Longrightarrow> forEach body xs s = forEach body' ys t"
  by (induction ys arbitrary: xs s t) (auto split: sum.splits)

lemma forEachCtx_cong [fundef_cong]:
  "xs = ys \<Longrightarrow> e = e' \<Longrightarrow> s = t \<Longrightarrow> (\<And>x c u. x \<in> set ys \<Longrightarrow> body x c u = body' x c u)
   \<Longrightarrow> forEachCtx body xs e s = forEachCtx body' ys e' t"
  by (induction ys arbitrary: xs e e' s t) (auto split: sum.splits)

lemma getWindowBoundaryOptionFuncSQL_cong [fundef_cong]:
  "e = e' \<Longrightarrow> expr = expr' \<Longrightarrow> isStart = isStart' \<Longrightarrow> s = t
   \<Longrightarrow> (\<And>u. format (snd expr') u = format' (snd expr') u)
   \<Longrightarrow> getWindowBoundaryOptionFuncSQL format e expr isStart s
       = getWindowBoundaryOptionFuncSQL format' e' expr' isStart' t"
  by (simp add: getWindowBoundaryOptionFuncSQL_def Let_def split: boundary_type.splits)

section \<open>FormatSQL\<close>

text \<open>
  One equation per formatter type and payload case, in the order of the source.
  \<open>newNode(x).FormatSQL(ctx)\<close> on a typed child \<open>x\<close> is \<open>FormatSQL\<close> on the wrapper
  around \<open>x\<close>. A method call on a nil payload dereferences it (the accessors of the
  analyzer's nodes read a field of the receiver), which is the error \<open>NilDereference\<close>.
  The DML formatters test \<open>n == nil\<close>, the wrapper, which is never nil here.
\<close>

function (sequential) FormatSQL :: "node \<Rightarrow> env \<Rightarrow> state \<Rightarrow> string result" where
  "FormatSQL (LiteralNode None) e s = Inr ([], s)"
| "FormatSQL (LiteralNode (Some v)) e s = Inr (JSONFromZetaSQLValue e v, s)"
| "FormatSQL (ParameterNode None) e s = Inl NilDereference"
| "FormatSQL (ParameterNode (Some name)) e s = Inr (''@'' @ name, s)"
| "FormatSQL (ColumnRefNode p) e s = Inr (formatColumnRef p, s)"
| "FormatSQL (FunctionCallNode None) e s = Inr ([], s)"
| "FormatSQL (FunctionCallNode (Some (ArgumentList, typeName, fullName))) e s =
     (case forEach (\<lambda>a u. FormatSQL a e u) ArgumentList s of
        Inl err \<Rightarrow> Inl err
      | Inr (args, s1) \<Rightarrow>
          (case resolveCallee ''zetasqlite_'' (normalFuncMap e) fullName typeName args e s1 of
             Inl err \<Rightarrow> Inl err
           | Inr (Inlined sql, s2) \<Rightarrow> Inr (sql, s2)
           | Inr (Call funcName, s2) \<Rightarrow> Inr (formatCall funcName args, s2)))"
| "FormatSQL (AggregateFunctionCallNode None) e s = Inr ([], s)"
| "FormatSQL (AggregateFunctionCallNode
      (Some (ArgumentList, typeName, fullName, OrderByItemList, Distinct, Limit))) e s =
     (case forEach (\<lambda>a u. FormatSQL a e u) ArgumentList s of
        Inl err \<Rightarrow> Inl err
      | Inr (args, s1) \<Rightarrow>
          (case resolveCallee ''zetasqlite_'' (aggregateFuncMap e) fullName typeName args e s1 of
             Inl err \<Rightarrow> Inl err
           | Inr (Inlined sql, s2) \<Rightarrow> Inr (sql, s2)
           | Inr (Call funcName, s2) \<Rightarrow>
               (case forEach
                       (\<lambda>item u.
                          case FormatSQL (ColumnRefNode (Some (fst item))) e u of
                            Inl err \<Rightarrow> Inl err
                          | Inr (columnName, u1) \<Rightarrow>
                              Inr (if snd item
                                   then ''zetasqlite_order_by_string('' @ columnName @ '', false)''
                                   else ''zetasqlite_order_by_string('' @ columnName @ '', true)'', u1))
                       OrderByItemList s2 of
                  Inl err \<Rightarrow> Inl err
                | Inr (orderOpts, s3) \<Rightarrow>
                    (let opts = orderOpts @ (if Distinct then [''zetasqlite_distinct_string()''] else [])
                     in case Limit of
                          None \<Rightarrow> Inr (formatCall funcName (args @ opts), s3)
                        | Some limit \<Rightarrow>
                            (case FormatSQL limit e s3 of
                               Inl err \<Rightarrow> Inl err
                             | Inr (limitValue, s4) \<Rightarrow>
                                 Inr (formatCall funcName
                                        (args @ opts
                                           @ [''zetasqlite_limit_string('' @ limitValue @ '')'']),
                                      s4))))))"
| "FormatSQL (AnalyticFunctionCallNode None) e s = Inr ([], s)"
| "FormatSQL (AnalyticFunctionCallNode
      (Some (ArgumentList, typeName, fullName, Distinct, WindowFrame))) e s =
     (let orderColumns = orderColumnNames s
      in case forEachCtx
                (\<lambda>a c u.
                   case a of
                     ColumnRefNode t \<Rightarrow>
                       (case t of
                          None \<Rightarrow> Inl NilDereference
                        | Some column \<Rightarrow>
                            (let c1 = c\<lparr>analyticTableName := TableName column\<rparr>
                             in case FormatSQL a c1 u of
                                  Inl err \<Rightarrow> Inl err
                                | Inr (arg, u1) \<Rightarrow>
                                    Inr (arg, c1, u1\<lparr>orderColumnNames := orderColumnNames u1 @ [arg]\<rparr>)))
                   | _ \<Rightarrow> Inl UnexpectedArgumentNodeType)
                ArgumentList e s of
           Inl err \<Rightarrow> Inl err
         | Inr (args, e1, s1) \<Rightarrow>
             (let tableName = analyticTableName e1
              in if tableName = [] then Inl FailedToFindTableName
                 else case resolveCallee ''zetasqlite_window_'' (windowFuncMap e1)
                             fullName typeName args e1 s1 of
                        Inl err \<Rightarrow> Inl err
                      | Inr (Inlined sql, s2) \<Rightarrow> Inr (sql, s2)
                      | Inr (Call funcName, s2) \<Rightarrow>
                          (let args1 = args
                                 @ (if Distinct then [''zetasqlite_distinct_string()''] else [])
                                 @ map (getWindowPartitionOptionFuncSQL e1)
                                     (analyticPartitionColumnNames e1)
                                 @ map (getWindowOrderByOptionFuncSQL e1) orderColumns
                           in case WindowFrame of
                                None \<Rightarrow>
                                  Inr (formatAnalyticCall funcName
                                         (args1 @ [getWindowRowIDOptionFuncSQL e1]) tableName, s2)
                              | Some (FrameUnit, StartExpr, EndExpr) \<Rightarrow>
                                  (case getWindowBoundaryOptionFuncSQL (\<lambda>x u. FormatSQL x e1 u)
                                          e1 StartExpr True s2 of
                                     Inl err \<Rightarrow> Inl err
                                   | Inr (startSQL, s3) \<Rightarrow>
                                       (case getWindowBoundaryOptionFuncSQL (\<lambda>x u. FormatSQL x e1 u)
                                               e1 EndExpr False s3 of
                                          Inl err \<Rightarrow> Inl err
                                        | Inr (endSQL, s4) \<Rightarrow>
                                            Inr (formatAnalyticCall funcName
                                                   (args1 @ [getWindowFrameUnitOptionFuncSQL e1 FrameUnit,
                                                             startSQL, endSQL,
                                                             getWindowRowIDOptionFuncSQL e1])
                                                   tableName, s4))))))"
| "FormatSQL (GetStructFieldNode None) e s = Inr ([], s)"
| "FormatSQL (GetStructFieldNode (Some (Expr, typeName, FieldIdx))) e s =
     (case FormatSQL Expr e s of
        Inl err \<Rightarrow> Inl err
      | Inr (expr, s1) \<Rightarrow>
          Inr (''zetasqlite_get_struct_field_'' @ resultTypeFamily e typeName
                 @ ''('' @ expr @ '', '' @ showInt FieldIdx @ '')'', s1))"
| "FormatSQL (SubqueryExprNode None) e s = Inr ([], s)"
| "FormatSQL (SubqueryExprNode (Some (Subquery, SubqueryType))) e s =
     (case FormatSQL Subquery e s of
        Inl err \<Rightarrow> Inl err
      | Inr (sql, s1) \<Rightarrow>
          (case SubqueryType of
             SubqueryTypeExists \<Rightarrow> Inr (''EXISTS ('' @ sql @ '')'', s1)
           | SubqueryTypeOther _ \<Rightarrow> Inr (sql, s1)))"
| "FormatSQL (TableScanNode None) e s = Inr ([], s)"
| "FormatSQL (TableScanNode (Some _)) e s =
     (case consumePath e s of
        Inl err \<Rightarrow> Inl err
      | Inr (tableName, s1) \<Rightarrow> Inr (''FROM '' @ backquote tableName, s1))"
| "FormatSQL (ArrayScanNode None) e s = Inr ([], s)"
| "FormatSQL (ArrayScanNode (Some (ArrayExpr, ElementColumn))) e s =
     (case FormatSQL ArrayExpr e s of
        Inl err \<Rightarrow> Inl err
      | Inr (arrayExpr, s1) \<Rightarrow>
          Inr (''FROM ( SELECT json_each.value AS '' @ backquote (Name ElementColumn)
                 @ '' FROM json_each(zetasqlite_decode_array_string('' @ arrayExpr @ '')) )'', s1))"
| "FormatSQL (FilterScanNode None) e s = Inr ([], s)"
| "FormatSQL (FilterScanNode (Some (InputScan, FilterExpr))) e s =
     (case FormatSQL InputScan e s of
        Inl err \<Rightarrow> Inl err
      | Inr (input, s1) \<Rightarrow>
          (case FormatSQL FilterExpr e s1 of
             Inl err \<Rightarrow> Inl err
           | Inr (filterSQL, s2) \<Rightarrow> Inr (input @ '' WHERE '' @ filterSQL, s2)))"
| "FormatSQL (AggregateScanNode None) e s = Inr ([], s)"
| "FormatSQL (AggregateScanNode (Some (AggregateList, InputScan))) e s =
     (case forEach (\<lambda>agg u. FormatSQL (ComputedColumnNode (Some agg)) e u) AggregateList s of
        Inl err \<Rightarrow> Inl err
      | Inr (_, s1) \<Rightarrow>
          (case FormatSQL InputScan e s1 of
             Inl err \<Rightarrow> Inl err
           | Inr (input, s2) \<Rightarrow>
               if HasPrefix input ''SELECT'' then Inr (''FROM ( '' @ input @ '' )'', s2)
               else Inr (input, s2)))"
| "FormatSQL (SetOperationItemNode None) e s = Inr ([], s)"
| "FormatSQL (SetOperationItemNode (Some Scan)) e s = FormatSQL Scan e s"
| "FormatSQL (SetOperationScanNode None) e s = Inr ([], s)"
| "FormatSQL (SetOperationScanNode (Some (OpType, InputItemList))) e s =
     (let opType = setOperationKeyword OpType
      in case forEach (\<lambda>item u. FormatSQL (SetOperationItemNode (Some item)) e u) InputItemList s of
           Inl err \<Rightarrow> Inl err
         | Inr (queries, s1) \<Rightarrow> Inr (Join queries ('' '' @ opType @ '' ''), s1))"
| "FormatSQL (WithRefScanNode None) e s = Inr ([], s)"
| "FormatSQL (WithRefScanNode (Some WithQueryName)) e s = Inr (''FROM '' @ WithQueryName, s)"
| "FormatSQL (AnalyticScanNode None) e s = Inr ([], s)"
| "FormatSQL (AnalyticScanNode (Some (InputScan, FunctionGroupList))) e s =
     (case FormatSQL InputScan e s of
        Inl err \<Rightarrow> Inl err
      | Inr (input, s1) \<Rightarrow>
          (case forEachCtx
                  (\<lambda>grp c u.
                     case enterGroup (fst grp) (fst (snd grp)) c u of
                       (c1, u1) \<Rightarrow>
                         (case FormatSQL (AnalyticFunctionGroupNode (Some grp)) c1 u1 of
                            Inl err \<Rightarrow> Inl err
                          | Inr (sql, u2) \<Rightarrow> Inr (sql, c1, u2)))
                  FunctionGroupList e s1 of
             Inl err \<Rightarrow> Inl err
           | Inr (_, e2, s2) \<Rightarrow>
               (let orderBy = ''ORDER BY '' @ Join (orderColumnNames s2) '',''
                in Inr (''FROM ( SELECT *, ROW_NUMBER() OVER() AS `rowid` '' @ input @ '' ) '' @ orderBy,
                        s2\<lparr>orderColumnNames := []\<rparr>))))"
| "FormatSQL (ComputedColumnNode None) e s = Inr ([], s)"
| "FormatSQL (ComputedColumnNode (Some (Expr, column))) e s =
     (case FormatSQL Expr e s of
        Inl err \<Rightarrow> Inl err
      | Inr (expr, s1) \<Rightarrow>
          (let query = expr @ '' AS '' @ backquote (Name column)
           in Inr (query, s1\<lparr>columnRefMap := (columnRefMap s1)(Name column \<mapsto> query)\<rparr>)))"
| "FormatSQL (OutputColumnNode None) e s = Inr ([], s)"
| "FormatSQL (OutputColumnNode (Some name)) e s =
     (case columnRefMap s name of
        Some ref \<Rightarrow> Inr (ref, s)
      | None \<Rightarrow> Inr (backquote name, s))"
| "FormatSQL (ProjectScanNode None) e s = Inr ([], s)"
| "FormatSQL (ProjectScanNode (Some (ExprList, InputScan, ColumnList))) e s =
     (case forEach (\<lambda>col u. FormatSQL (ComputedColumnNode (Some col)) e u) ExprList s of
        Inl err \<Rightarrow> Inl err
      | Inr (_, s1) \<Rightarrow>
          (case FormatSQL InputScan e s1 of
             Inl err \<Rightarrow> Inl err
           | Inr (input, s2) \<Rightarrow>
               (case projectColumns ColumnList (columnRefMap s2) [] of
                  (columns, columnMap) \<Rightarrow>
                    Inr (''SELECT '' @ Join columns '','' @ '' '' @ input,
                         s2\<lparr>columnRefMap := columnMap\<rparr>))))"
| "FormatSQL (QueryStmtNode None) e s = Inr ([], s)"
| "FormatSQL (QueryStmtNode (Some Query)) e s = FormatSQL Query e s"
| "FormatSQL (WithScanNode None) e s = Inr ([], s)"
| "FormatSQL (WithScanNode (Some (WithEntryList, Query))) e s =
     (case forEach (\<lambda>entry u. FormatSQL (WithEntryNode (Some entry)) e u) WithEntryList s of
        Inl err \<Rightarrow> Inl err
      | Inr (queries, s1) \<Rightarrow>
          (case FormatSQL Query e s1 of
             Inl err \<Rightarrow> Inl err
           | Inr (query, s2) \<Rightarrow> Inr (''WITH '' @ Join queries '', '' @ '' '' @ query, s2)))"
| "FormatSQL (WithEntryNode None) e s = Inr ([], s)"
| "FormatSQL (WithEntryNode (Some (WithQueryName, WithSubquery))) e s =
     (case FormatSQL WithSubquery e s of
        Inl err \<Rightarrow> Inl err
      | Inr (subquery, s1) \<Rightarrow> Inr (WithQueryName @ '' AS ( '' @ subquery @ '' )'', s1))"
| "FormatSQL (AnalyticFunctionGroupNode None) e s = Inr ([], s)"
| "FormatSQL (AnalyticFunctionGroupNode (Some (PartitionBy, OrderBy, AnalyticFunctionList))) e s =
     (case forEach
             (\<lambda>column u.
                case FormatSQL (ComputedColumnNode (Some column)) e u of
                  Inl err \<Rightarrow> Inl err
                | Inr (sql, u1) \<Rightarrow>
                    Inr (sql, u1\<lparr>orderColumnNames :=
                                   orderColumnNames u1 @ [backquote (Name (snd column))]\<rparr>))
             AnalyticFunctionList s of
        Inl err \<Rightarrow> Inl err
      | Inr (queries, s1) \<Rightarrow> Inr (Join queries '','', s1))"
| "FormatSQL (DMLValueNode None) e s = Inl NilDereference"
| "FormatSQL (DMLValueNode (Some Value)) e s = FormatSQL Value e s"
| "FormatSQL (InsertRowNode None) e s = Inl NilDereference"
| "FormatSQL (InsertRowNode (Some ValueList)) e s =
     (case forEach (\<lambda>v u. FormatSQL (DMLValueNode (Some v)) e u) ValueList s of
        Inl err \<Rightarrow> Inl err
      | Inr (vals, s1) \<Rightarrow> Inr (''('' @ Join vals '','' @ '')'', s1))"
| "FormatSQL (InsertStmtNode None) e s =
     (case consumePath e s of Inl err \<Rightarrow> Inl err | Inr _ \<Rightarrow> Inl NilDereference)"
| "FormatSQL (InsertStmtNode (Some (InsertColumnList, RowList))) e s =
     (case consumePath e s of
        Inl err \<Rightarrow> Inl err
      | Inr (formattedTableName, s1) \<Rightarrow>
          (let columns = map (\<lambda>col. backquote (Name col)) InsertColumnList
           in case forEach (\<lambda>row u. FormatSQL (InsertRowNode (Some row)) e u) RowList s1 of
                Inl err \<Rightarrow> Inl err
              | Inr (rows, s2) \<Rightarrow>
                  Inr (''INSERT INTO '' @ backquote formattedTableName @ '' ('' @ Join columns '',''
                         @ '') VALUES '' @ Join rows '','', s2)))"
| "FormatSQL (DeleteStmtNode None) e s =
     (case consumePath e s of Inl err \<Rightarrow> Inl err | Inr _ \<Rightarrow> Inl NilDereference)"
| "FormatSQL (DeleteStmtNode (Some WhereExpr)) e s =
     (case consumePath e s of
        Inl err \<Rightarrow> Inl err
      | Inr (formattedTableName, s1) \<Rightarrow>
          (case FormatSQL WhereExpr e s1 of
             Inl err \<Rightarrow> Inl err
           | Inr (whereSQL, s2) \<Rightarrow>
               Inr (''DELETE FROM '' @ backquote formattedTableName @ '' WHERE '' @ whereSQL, s2)))"
| "FormatSQL (UpdateItemNode None) e s = Inr ([], s)"
| "FormatSQL (UpdateItemNode (Some (Target, SetValue))) e s =
     (case FormatSQL Target e s of
        Inl err \<Rightarrow> Inl err
      | Inr (target, s1) \<Rightarrow>
          (case FormatSQL (DMLValueNode SetValue) e s1 of
             Inl err \<Rightarrow> Inl err
           | Inr (setValue, s2) \<Rightarrow> Inr (target @ ''='' @ setValue, s2)))"
| "FormatSQL (UpdateStmtNode None) e s =
     (case consumePath e s of Inl err \<Rightarrow> Inl err | Inr _ \<Rightarrow> Inl NilDereference)"
| "FormatSQL (UpdateStmtNode (Some (UpdateItemList, WhereExpr))) e s =
     (case consumePath e s of
        Inl err \<Rightarrow> Inl err
      | Inr (formattedTableName, s1) \<Rightarrow>
          (case forEach (\<lambda>item u. FormatSQL (UpdateItemNode (Some item)) e u) UpdateItemList s1 of
             Inl err \<Rightarrow> Inl err
           | Inr (updateItems, s2) \<Rightarrow>
               (case FormatSQL WhereExpr e s2 of
                  Inl err \<Rightarrow> Inl err
                | Inr (whereSQL, s3) \<Rightarrow>
                    Inr (''UPDATE '' @ backquote formattedTableName @ '' SET ''
                           @ Join updateItems '','' @ '' WHERE '' @ whereSQL, s3))))"
| "FormatSQL (ArgumentRefNode None) e s = Inr ([], s)"
| "FormatSQL (ArgumentRefNode (Some _)) e s = Inr (''?'', s)"
| "FormatSQL (NoOpNode kind) e s = Inr ([], s)"
  by pat_completeness auto

lemma size_list_member: "x \<in> set xs \<Longrightarrow> f x < size_list f xs"
  by (induction xs) auto

termination FormatSQL
  apply (relation "measure (\<lambda>(n, e, s). size n)")
  apply (auto dest: size_list_member [where f = size]
      size_list_member [where f = "size_prod size (\<lambda>x. 0)"]
      size_list_member [where f = "size_prod (\<lambda>x. 0) size"]
      size_list_member [where f = "size_list size"]
      size_list_member [where f = "size_prod size (size_option size)"]
      size_list_member [where f = "size_prod (\<lambda>x. 0) (size_prod (\<lambda>x. 0) (size_list (size_prod size (\<lambda>x. 0))))"])
  done

section \<open>Names for a loop body and for the spec's substitution\<close>

text \<open>
  \<open>analyticArgument\<close> names the body of the argument loop of the analytic call (the
  type switch on the argument), so that lemmas can speak about the loop;
  \<open>isColumnRefNode\<close> is the first case of that switch.
\<close>

definition isColumnRefNode :: "node \<Rightarrow> bool" where
  "isColumnRefNode a = (case a of ColumnRefNode _ \<Rightarrow> True | _ \<Rightarrow> False)"

definition analyticArgument :: "node \<Rightarrow> env \<Rightarrow> state \<Rightarrow> error + (string \<times> env \<times> state)" where
  "analyticArgument a c u =
     (case a of
        ColumnRefNode t \<Rightarrow>
          (case t of
             None \<Rightarrow> Inl NilDereference
           | Some column \<Rightarrow>
               (let c1 = c\<lparr>analyticTableName := TableName column\<rparr>
                in case FormatSQL a c1 u of
                     Inl err \<Rightarrow> Inl err
                   | Inr (arg, u1) \<Rightarrow>
                       Inr (arg, c1, u1\<lparr>orderColumnNames := orderColumnNames u1 @ [arg]\<rparr>)))
      | _ \<Rightarrow> Inl UnexpectedArgumentNodeType)"

text \<open>
  \<open>analyticFunctionStep\<close> and \<open>analyticGroupStep\<close> name the bodies of the loops of the
  analytic function group and of the analytic scan in the same way.
\<close>

definition analyticFunctionStep :: "env \<Rightarrow> node \<times> column \<Rightarrow> state \<Rightarrow> string result" where
  "analyticFunctionStep e column u =
     (case FormatSQL (ComputedColumnNode (Some column)) e u of
        Inl err \<Rightarrow> Inl err
      | Inr (sql, u1) \<Rightarrow>
          Inr (sql, u1\<lparr>orderColumnNames :=
                         orderColumnNames u1 @ [backquote (Name (snd column))]\<rparr>))"

definition analyticGroupStep ::
  "column list option \<times> (column \<times> bool) list option \<times> (node \<times> column) list \<Rightarrow> env \<Rightarrow> state
   \<Rightarrow> error + (string \<times> env \<times> state)" where
  "analyticGroupStep grp c u =
     (case enterGroup (fst grp) (fst (snd grp)) c u of
        (c1, u1) \<Rightarrow>
          (case FormatSQL (AnalyticFunctionGroupNode (Some grp)) c1 u1 of
             Inl err \<Rightarrow> Inl err
           | Inr (sql, u2) \<Rightarrow> Inr (sql, c1, u2)))"

text \<open>
  \<open>orderByOption\<close> names the body of the loop over the ORDER BY items of the
  aggregate call.
\<close>

definition orderByOption :: "env \<Rightarrow> column \<times> bool \<Rightarrow> state \<Rightarrow> string result" where
  "orderByOption e item u =
     (case FormatSQL (ColumnRefNode (Some (fst item))) e u of
        Inl err \<Rightarrow> Inl err
      | Inr (columnName, u1) \<Rightarrow>
          Inr (if snd item
               then ''zetasqlite_order_by_string('' @ columnName @ '', false)''
               else ''zetasqlite_order_by_string('' @ columnName @ '', true)'', u1))"

text \<open>
  The callee name of a built-in as the spec words it (prefix, bare name without the
  sigil, underscore, family), and the text of one ORDER BY option of an aggregate
  call.
\<close>

definition orderByOptionText :: "column \<times> bool \<Rightarrow> string" where
  "orderByOptionText item =
     ''zetasqlite_order_by_string('' @ backquote (Name (fst item))
       @ (if snd item then '', false)'' else '', true)'')"

definition mangledName :: "env \<Rightarrow> string \<Rightarrow> string \<Rightarrow> string \<Rightarrow> string" where
  "mangledName e prefix fullName typeName =
     prefix @ (if HasPrefix fullName ''$'' then drop 1 fullName else fullName) @ ''_''
       @ (if HasPrefix (ToLower (unicodeToLower e) typeName) ''struct'' then ''struct''
          else ToLower (unicodeToLower e) typeName)"

text \<open>
  The columns that an analytic scan accumulates for its ORDER BY, read off the tree:
  for a group its partition columns, its order columns and, for each analytic
  function, the argument columns of the call followed by the output column of the
  function. \<open>isWindowCall\<close> holds for a computed column whose expression is an analytic
  call with a payload whose frame, if any, has literals or parameters as offsets.
\<close>

definition isOffsetLiteral :: "node \<Rightarrow> bool" where
  "isOffsetLiteral x = (case x of LiteralNode _ \<Rightarrow> True | ParameterNode _ \<Rightarrow> True | _ \<Rightarrow> False)"

definition isWindowCall :: "node \<times> column \<Rightarrow> bool" where
  "isWindowCall f =
     (case fst f of
        AnalyticFunctionCallNode (Some (ArgumentList, typeName, fullName, Distinct, WindowFrame)) \<Rightarrow>
          (case WindowFrame of
             None \<Rightarrow> True
           | Some (FrameUnit, StartExpr, EndExpr) \<Rightarrow>
               isOffsetLiteral (snd StartExpr) \<and> isOffsetLiteral (snd EndExpr))
      | _ \<Rightarrow> False)"

definition argumentColumns :: "node list \<Rightarrow> string list" where
  "argumentColumns args =
     concat (map (\<lambda>a. case a of ColumnRefNode (Some column) \<Rightarrow> [backquote (Name column)] | _ \<Rightarrow> []) args)"

definition functionColumns :: "node \<times> column \<Rightarrow> string list" where
  "functionColumns f =
     (case fst f of
        AnalyticFunctionCallNode (Some (ArgumentList, typeName, fullName, Distinct, WindowFrame)) \<Rightarrow>
          argumentColumns ArgumentList
      | _ \<Rightarrow> [])
     @ [backquote (Name (snd f))]"

definition groupColumns ::
  "column list option \<times> (column \<times> bool) list option \<times> (node \<times> column) list \<Rightarrow> string list" where
  "groupColumns grp =
     (case fst grp of None \<Rightarrow> [] | Some PartitionByList \<Rightarrow> map (\<lambda>c. backquote (Name c)) PartitionByList)
     @ (case fst (snd grp) of
          None \<Rightarrow> []
        | Some OrderByItemList \<Rightarrow> map (\<lambda>item. backquote (Name (fst item))) OrderByItemList)
     @ concat (map functionColumns (snd (snd grp)))"

text \<open>
  The substitution as the spec words it, for comparison with \<open>inlineBody\<close>: each
  argument goes into the next remaining placeholder of the body, from left to right,
  one argument per placeholder.
\<close>

fun substitutePlaceholders :: "string \<Rightarrow> string list \<Rightarrow> string" where
  "substitutePlaceholders [] args = []"
| "substitutePlaceholders (c # cs) [] = c # cs"
| "substitutePlaceholders (c # cs) (arg # args) =
     (if c = CHR ''?'' then arg @ substitutePlaceholders cs args
      else c # substitutePlaceholders cs (arg # args))"

section \<open>An example context\<close>

text \<open>
  A concrete context for the closed examples below: the value encoder is the
  identity, the catalogs hold one name each, the window option builders produce
  short tags and the Unicode case mapping is the identity.
\<close>

definition demoEnv :: "string list list \<Rightarrow> (string \<rightharpoonup> string) \<Rightarrow> env" where
  "demoEnv ps fm =
     \<lparr>paths = ps, namePath = [], funcMap = fm,
      normalFuncMap = {''concat''}, aggregateFuncMap = {''sum''}, windowFuncMap = {''sum''},
      analyticTableName = [], analyticPartitionColumnNames = [],
      JSONFromZetaSQLValue = (\<lambda>v. v),
      getWindowPartitionOptionFuncSQL = (\<lambda>c. ''partition('' @ c @ '')''),
      getWindowOrderByOptionFuncSQL = (\<lambda>c. ''order_by('' @ c @ '')''),
      getWindowFrameUnitOptionFuncSQL = (\<lambda>u. ''frame_unit('' @ showInt u @ '')''),
      getWindowBoundaryStartOptionFuncSQL = (\<lambda>t l. ''boundary_start('' @ l @ '')''),
      getWindowBoundaryEndOptionFuncSQL = (\<lambda>t l. ''boundary_end('' @ l @ '')''),
      getWindowRowIDOptionFuncSQL = ''rowid()'',
      unicodeToLower = (\<lambda>s. s)\<rparr>"

definition demoState :: state where
  "demoState = \<lparr>idx = 0, columnRefMap = Map.empty, orderColumnNames = []\<rparr>"

lemma demoEnv_sel [simp]:
  "paths (demoEnv ps fm) = ps"
  "namePath (demoEnv ps fm) = []"
  "funcMap (demoEnv ps fm) = fm"
  "normalFuncMap (demoEnv ps fm) = {''concat''}"
  "aggregateFuncMap (demoEnv ps fm) = {''sum''}"
  "windowFuncMap (demoEnv ps fm) = {''sum''}"
  "analyticTableName (demoEnv ps fm) = []"
  "analyticPartitionColumnNames (demoEnv ps fm) = []"
  "JSONFromZetaSQLValue (demoEnv ps fm) = (\<lambda>v. v)"
  "getWindowPartitionOptionFuncSQL (demoEnv ps fm) = (\<lambda>c. ''partition('' @ c @ '')'')"
  "getWindowOrderByOptionFuncSQL (demoEnv ps fm) = (\<lambda>c. ''order_by('' @ c @ '')'')"
  "getWindowRowIDOptionFuncSQL (demoEnv ps fm) = ''rowid()''"
  "getWindowFrameUnitOptionFuncSQL (demoEnv ps fm) = (\<lambda>u. ''frame_unit('' @ showInt u @ '')'')"
  "getWindowBoundaryStartOptionFuncSQL (demoEnv ps fm) = (\<lambda>t l. ''boundary_start('' @ l @ '')'')"
  "getWindowBoundaryEndOptionFuncSQL (demoEnv ps fm) = (\<lambda>t l. ''boundary_end('' @ l @ '')'')"
  "unicodeToLower (demoEnv ps fm) = (\<lambda>s. s)"
  by (simp_all add: demoEnv_def)

section \<open>Properties of name-path merging\<close>

lemma MergeNamePath_loop_takeWhile:
  "MergeNamePath_loop q0 ps merged = merged @ takeWhile (\<lambda>p. p \<noteq> q0) ps"
  by (induction ps arbitrary: merged) auto

text \<open>
  Claim C8. Merging with an empty resolved path returns the declared path unchanged;
  merging with a non-empty resolved path returns the longest prefix of the declared
  path none of whose segments equals the first resolved segment, followed by the
  resolved path; and merging a,b,c with b,c,d gives a,b,c,d.
\<close>

theorem MergeNamePath_spec:
  "MergeNamePath declared [] = declared
   \<and> MergeNamePath declared (r # rs) = takeWhile (\<lambda>p. p \<noteq> r) declared @ r # rs
   \<and> MergeNamePath [''a'', ''b'', ''c''] [''b'', ''c'', ''d''] = [''a'', ''b'', ''c'', ''d'']"
  by (simp add: MergeNamePath_def MergeNamePath_loop_takeWhile)

theorem MergeNamePath_spec_witness:
  "MergeNamePath [''p'', ''q'', ''r''] [] = [''p'', ''q'', ''r'']
   \<and> MergeNamePath [''p'', ''q'', ''r''] [''q'', ''x''] = [''p'', ''q'', ''x'']"
  using MergeNamePath_spec [of "[''p'', ''q'', ''r'']" "''q''" "[''x'']"]
  by simp

section \<open>Set operations\<close>

lemma forEach_SetOperationItem:
  "forEach (\<lambda>item u. FormatSQL (SetOperationItemNode (Some item)) e u) items s
   = forEach (\<lambda>item u. FormatSQL item e u) items s"
  by simp

text \<open>
  Claim C1 says that an operator code outside the six recognized ones makes
  \<open>FormatSQL\<close> return an error. The \<open>default\<close> branch of the switch sets the keyword
  \<open>UNKONWN\<close> instead, and the branches are joined with it: here for the code 6 and two
  branches.
\<close>

theorem SetOperationScan_unrecognized_counterexample:
  "FormatSQL (SetOperationScanNode (Some (SetOperationTypeOther 6,
          [WithRefScanNode (Some ''a''), WithRefScanNode (Some ''b'')]))) (demoEnv [] Map.empty) demoState
   = Inr (''FROM a UNKONWN FROM b'', demoState)"
  by (simp add: setOperationKeyword_def)

text \<open>
  Claim C1, amended. When every branch formats, a set-operation scan returns the
  branch fragments joined with the keyword pair of its operator, which is the literal
  \<open>UNKONWN\<close> for every unrecognized code; the scan itself raises no error, it fails
  only with the error of a branch.
\<close>

theorem SetOperationScan_keyword:
  "(forEach (\<lambda>item u. FormatSQL item e u) items s = Inr (queries, s1) \<longrightarrow>
      FormatSQL (SetOperationScanNode (Some (SetOperationTypeOther code, items))) e s
        = Inr (Join queries '' UNKONWN '', s1)
    \<and> FormatSQL (SetOperationScanNode (Some (SetOperationTypeUnionAll, items))) e s
        = Inr (Join queries '' UNION ALL '', s1)
    \<and> FormatSQL (SetOperationScanNode (Some (SetOperationTypeUnionDistinct, items))) e s
        = Inr (Join queries '' UNION DISTINCT '', s1)
    \<and> FormatSQL (SetOperationScanNode (Some (SetOperationTypeIntersectAll, items))) e s
        = Inr (Join queries '' INTERSECT ALL '', s1)
    \<and> FormatSQL (SetOperationScanNode (Some (SetOperationTypeIntersectDistinct, items))) e s
        = Inr (Join queries '' INTERSECT DISTINCT '', s1)
    \<and> FormatSQL (SetOperationScanNode (Some (SetOperationTypeExceptAll, items))) e s
        = Inr (Join queries '' EXCEPT ALL '', s1)
    \<and> FormatSQL (SetOperationScanNode (Some (SetOperationTypeExceptDistinct, items))) e s
        = Inr (Join queries '' EXCEPT DISTINCT '', s1))
   \<and> (forEach (\<lambda>item u. FormatSQL item e u) items s = Inl err \<longrightarrow>
      FormatSQL (SetOperationScanNode (Some (op, items))) e s = Inl err)"
  by (simp add: setOperationKeyword_def forEach_SetOperationItem)

theorem SetOperationScan_keyword_witness:
  "FormatSQL (SetOperationScanNode (Some (SetOperationTypeOther 9,
          [WithRefScanNode (Some ''a''), WithRefScanNode (Some ''b'')]))) (demoEnv [] Map.empty) demoState
     = Inr (''FROM a UNKONWN FROM b'', demoState)
   \<and> FormatSQL (SetOperationScanNode (Some (SetOperationTypeUnionAll,
          [WithRefScanNode (Some ''a''), WithRefScanNode (Some ''b'')]))) (demoEnv [] Map.empty) demoState
     = Inr (''FROM a UNION ALL FROM b'', demoState)
   \<and> FormatSQL (SetOperationScanNode (Some (SetOperationTypeExceptAll,
          [WithRefScanNode (Some ''a''), ParameterNode None]))) (demoEnv [] Map.empty) demoState
     = Inl NilDereference"
  using SetOperationScan_keyword [of "demoEnv [] Map.empty"
      "[WithRefScanNode (Some ''a''), WithRefScanNode (Some ''b'')]" demoState
      "[''FROM a'', ''FROM b'']" demoState 9 NilDereference SetOperationTypeExceptAll]
    SetOperationScan_keyword [of "demoEnv [] Map.empty"
      "[WithRefScanNode (Some ''a''), ParameterNode None]" demoState
      "[]" demoState 9 NilDereference SetOperationTypeExceptAll]
  by simp

section \<open>Aggregate scans\<close>

text \<open>
  Claim C9. An aggregate scan formats its aggregate expressions first, then its input
  in the state they leave; the result is \<open>FROM ( input )\<close> if and only if the input
  fragment starts with \<open>SELECT\<close>, and the input fragment unchanged otherwise.
\<close>

theorem AggregateScan_wrap:
  "forEach (\<lambda>agg u. FormatSQL (ComputedColumnNode (Some agg)) e u) AggregateList s = Inr (aggs, s1)
   \<Longrightarrow> FormatSQL InputScan e s1 = Inr (input, s2)
   \<Longrightarrow> FormatSQL (AggregateScanNode (Some (AggregateList, InputScan))) e s
         = Inr (if HasPrefix input ''SELECT'' then ''FROM ( '' @ input @ '' )'' else input, s2)
       \<and> ((if HasPrefix input ''SELECT'' then ''FROM ( '' @ input @ '' )'' else input)
              = ''FROM ( '' @ input @ '' )'' \<longleftrightarrow> HasPrefix input ''SELECT'')"
  by simp

theorem AggregateScan_wrap_witness:
  "FormatSQL (AggregateScanNode (Some ([(LiteralNode (Some ''1''), Column ''c'' ''t'')],
            ProjectScanNode (Some ([], WithRefScanNode (Some ''t''), [Column ''x'' ''t''])))))
       (demoEnv [] Map.empty) demoState
     = Inr (''FROM ( SELECT `x` FROM t )'',
            demoState\<lparr>columnRefMap := [''c'' \<mapsto> ''1 AS `c`'']\<rparr>)
   \<and> FormatSQL (AggregateScanNode (Some ([(LiteralNode (Some ''1''), Column ''c'' ''t'')],
            WithRefScanNode (Some ''t''))))
       (demoEnv [] Map.empty) demoState
     = Inr (''FROM t'', demoState\<lparr>columnRefMap := [''c'' \<mapsto> ''1 AS `c`'']\<rparr>)"
  using AggregateScan_wrap [of "demoEnv [] Map.empty" "[(LiteralNode (Some ''1''), Column ''c'' ''t'')]"
      demoState "[''1 AS `c`'']" "demoState\<lparr>columnRefMap := [''c'' \<mapsto> ''1 AS `c`'']\<rparr>"
      "ProjectScanNode (Some ([], WithRefScanNode (Some ''t''), [Column ''x'' ''t'']))"
      "''SELECT `x` FROM t''" "demoState\<lparr>columnRefMap := [''c'' \<mapsto> ''1 AS `c`'']\<rparr>"]
    AggregateScan_wrap [of "demoEnv [] Map.empty" "[(LiteralNode (Some ''1''), Column ''c'' ''t'')]"
      demoState "[''1 AS `c`'']" "demoState\<lparr>columnRefMap := [''c'' \<mapsto> ''1 AS `c`'']\<rparr>"
      "WithRefScanNode (Some ''t'')"
      "''FROM t''" "demoState\<lparr>columnRefMap := [''c'' \<mapsto> ''1 AS `c`'']\<rparr>"]
  by (simp add: demoState_def backquote_def HasPrefix_def Let_def)

section \<open>Absent payloads\<close>

text \<open>
  Claim C4 says that every formatter returns the empty text and no error on an absent
  payload. The DML value and insert-row formatters test the wrapper (\<open>n == nil\<close>)
  where the others test the payload (\<open>n.node == nil\<close>), and then dereference the
  payload; the parameter formatter has no test; the three DML statements consume a
  name path and then dereference the payload. None of them returns a text.
\<close>

theorem nil_payload_DML:
  "FormatSQL (DMLValueNode None) e s = Inl NilDereference
   \<and> FormatSQL (InsertRowNode None) e s = Inl NilDereference
   \<and> FormatSQL (ParameterNode None) e s = Inl NilDereference
   \<and> isl (FormatSQL (InsertStmtNode None) e s)
   \<and> isl (FormatSQL (UpdateStmtNode None) e s)
   \<and> isl (FormatSQL (DeleteStmtNode None) e s)"
  by (simp add: consumePath_def)

section \<open>Inlining a user-defined function\<close>

lemma inlineBody_prefix:
  "CHR ''?'' \<notin> set p \<Longrightarrow> inlineBody (p @ b) args = p @ inlineBody b args"
proof (induction args arbitrary: b)
  case Nil
  then show ?case by simp
next
  case (Cons a args)
  have "ReplaceFirst (p @ b) a = p @ ReplaceFirst b a" if "CHR ''?'' \<notin> set p" for p
    using that by (induction p) auto
  with Cons show ?case by simp
qed

lemma inlineBody_refines:
  "\<forall>arg \<in> set args. CHR ''?'' \<notin> set arg \<Longrightarrow> inlineBody body args = substitutePlaceholders body args"
proof (induction args arbitrary: body)
  case Nil
  then show ?case by (cases body) simp_all
next
  case (Cons arg args)
  then have arg: "CHR ''?'' \<notin> set arg" and IH: "\<And>b. inlineBody b args = substitutePlaceholders b args"
    by simp_all
  show ?case
  proof (induction body)
    case Nil
    have "inlineBody [] xs = []" for xs by (induction xs) simp_all
    then show ?case by simp
  next
    case (Cons c cs)
    show ?case
    proof (cases "c = CHR ''?''")
      case True
      then show ?thesis using inlineBody_prefix [OF arg, of cs args] IH by simp
    next
      case False
      then have "inlineBody (c # cs) (arg # args) = [c] @ inlineBody (ReplaceFirst cs arg) args"
        using inlineBody_prefix [of "[c]" "ReplaceFirst cs arg" args] by simp
      with False Cons.IH show ?thesis by simp
    qed
  qed
qed

text \<open>
  Claim C6. The body \<open>? + ?\<close> with the arguments 1 and 2 is inlined as \<open>( 1 + 2 )\<close>.
  With a first argument that is itself an argument reference (formatted \<open>?\<close>) the
  second argument lands in the text of the first: the code returns \<open>( 1 + ? )\<close>, where
  one argument per placeholder gives \<open>? + 1\<close>. By \<open>inlineBody_refines\<close> the two agree
  whenever no formatted argument contains a question mark.
\<close>

theorem inline_arguments_with_placeholder:
  "FormatSQL (FunctionCallNode (Some ([LiteralNode (Some ''1''), LiteralNode (Some ''2'')], ''INT64'', ''g'')))
         (demoEnv [[''g'']] [''g'' \<mapsto> ''? + ?'']) demoState
     = Inr (''( 1 + 2 )'', demoState\<lparr>idx := 1\<rparr>)
   \<and> FormatSQL (FunctionCallNode (Some ([ArgumentRefNode (Some ()), LiteralNode (Some ''1'')], ''INT64'', ''g'')))
         (demoEnv [[''g'']] [''g'' \<mapsto> ''? + ?'']) demoState
     = Inr (''( 1 + ? )'', demoState\<lparr>idx := 1\<rparr>)
   \<and> substitutePlaceholders ''? + ?'' [''?'', ''1''] = ''? + 1''"
  by (simp add: demoState_def resolveCallee_def consumePath_def HasPrefix_def
      FormatName_def MergeNamePath_def)

section \<open>Arguments of analytic calls\<close>

lemma FormatSQL_AnalyticFunctionCall:
  "FormatSQL (AnalyticFunctionCallNode
      (Some (ArgumentList, typeName, fullName, Distinct, WindowFrame))) e s =
     (let orderColumns = orderColumnNames s
      in case forEachCtx analyticArgument ArgumentList e s of
           Inl err \<Rightarrow> Inl err
         | Inr (args, e1, s1) \<Rightarrow>
             (let tableName = analyticTableName e1
              in if tableName = [] then Inl FailedToFindTableName
                 else case resolveCallee ''zetasqlite_window_'' (windowFuncMap e1)
                             fullName typeName args e1 s1 of
                        Inl err \<Rightarrow> Inl err
                      | Inr (Inlined sql, s2) \<Rightarrow> Inr (sql, s2)
                      | Inr (Call funcName, s2) \<Rightarrow>
                          (let args1 = args
                                 @ (if Distinct then [''zetasqlite_distinct_string()''] else [])
                                 @ map (getWindowPartitionOptionFuncSQL e1)
                                     (analyticPartitionColumnNames e1)
                                 @ map (getWindowOrderByOptionFuncSQL e1) orderColumns
                           in case WindowFrame of
                                None \<Rightarrow>
                                  Inr (formatAnalyticCall funcName
                                         (args1 @ [getWindowRowIDOptionFuncSQL e1]) tableName, s2)
                              | Some (FrameUnit, StartExpr, EndExpr) \<Rightarrow>
                                  (case getWindowBoundaryOptionFuncSQL (\<lambda>x u. FormatSQL x e1 u)
                                          e1 StartExpr True s2 of
                                     Inl err \<Rightarrow> Inl err
                                   | Inr (startSQL, s3) \<Rightarrow>
                                       (case getWindowBoundaryOptionFuncSQL (\<lambda>x u. FormatSQL x e1 u)
                                               e1 EndExpr False s3 of
                                          Inl err \<Rightarrow> Inl err
                                        | Inr (endSQL, s4) \<Rightarrow>
                                            Inr (formatAnalyticCall funcName
                                                   (args1 @ [getWindowFrameUnitOptionFuncSQL e1 FrameUnit,
                                                             startSQL, endSQL,
                                                             getWindowRowIDOptionFuncSQL e1])
                                                   tableName, s4))))))"
  unfolding FormatSQL.simps analyticArgument_def [abs_def] ..

lemma analyticArguments_reject:
  "\<exists>a \<in> set args. \<not> isColumnRefNode a \<Longrightarrow>
   forEachCtx analyticArgument args e s
     = Inl (if ColumnRefNode None \<in> set (takeWhile isColumnRefNode args)
            then NilDereference else UnexpectedArgumentNodeType)"
proof (induction args arbitrary: e s)
  case Nil
  then show ?case by simp
next
  case (Cons a args)
  show ?case
  proof (cases a)
    case (ColumnRefNode t)
    with Cons.prems have rest: "\<exists>a \<in> set args. \<not> isColumnRefNode a"
      by (simp add: isColumnRefNode_def)
    show ?thesis
    proof (cases t)
      case None
      with ColumnRefNode show ?thesis
        by (simp add: analyticArgument_def isColumnRefNode_def)
    next
      case (Some column)
      with ColumnRefNode Cons.IH [OF rest] show ?thesis
        by (simp add: analyticArgument_def isColumnRefNode_def)
    qed
  qed (simp_all add: analyticArgument_def isColumnRefNode_def)
qed

text \<open>
  Claim C10. An analytic function call with an argument that is not a column
  reference returns an error: the error of the type switch, unless a column reference
  with an absent payload comes before the first such argument, which is a nil
  dereference.
\<close>

theorem AnalyticFunctionCall_rejects_non_column_arguments:
  "\<exists>a \<in> set ArgumentList. \<not> isColumnRefNode a \<Longrightarrow>
   FormatSQL (AnalyticFunctionCallNode
      (Some (ArgumentList, typeName, fullName, Distinct, WindowFrame))) e s
     = Inl (if ColumnRefNode None \<in> set (takeWhile isColumnRefNode ArgumentList)
            then NilDereference else UnexpectedArgumentNodeType)"
  by (simp add: FormatSQL_AnalyticFunctionCall analyticArguments_reject del: FormatSQL.simps)

theorem AnalyticFunctionCall_rejects_non_column_arguments_witness:
  "FormatSQL (AnalyticFunctionCallNode
      (Some ([ColumnRefNode (Some (Column ''a'' ''t'')), LiteralNode (Some ''1'')],
             ''INT64'', ''sum'', False, None))) (demoEnv [] Map.empty) demoState
     = Inl UnexpectedArgumentNodeType"
  using AnalyticFunctionCall_rejects_non_column_arguments
    [of "[ColumnRefNode (Some (Column ''a'' ''t'')), LiteralNode (Some ''1'')]"
        "''INT64''" "''sum''" False None "demoEnv [] Map.empty" demoState]
  by (simp add: isColumnRefNode_def)

section \<open>Project scans\<close>

lemma projectColumns_append:
  "projectColumns cols m (acc @ acc')
     = (acc @ fst (projectColumns cols m acc'), snd (projectColumns cols m acc'))"
  by (induction cols arbitrary: m acc') (auto split: option.splits)

lemma projectColumns_Cons:
  "projectColumns (col # cols) m [] =
     (case m (Name col) of
        Some ref \<Rightarrow> (ref # fst (projectColumns cols (m(Name col := None)) []),
                     snd (projectColumns cols (m(Name col := None)) []))
      | None \<Rightarrow> (backquote (Name col) # fst (projectColumns cols m []),
                  snd (projectColumns cols m [])))"
proof (cases "m (Name col)")
  case None
  then show ?thesis
    using projectColumns_append [of cols m "[backquote (Name col)]" "[]"] by simp
next
  case (Some ref)
  then show ?thesis
    using projectColumns_append [of cols "m(Name col := None)" "[ref]" "[]"] by simp
qed

lemma projectColumns_map:
  "snd (projectColumns cols m []) = (\<lambda>k. if k \<in> Name ` set cols then None else m k)"
proof (induction cols arbitrary: m)
  case Nil
  then show ?case by simp
next
  case (Cons col cols)
  show ?case
    by (auto simp add: projectColumns_Cons Cons.IH split: option.splits simp del: projectColumns.simps(2))
qed

lemma projectColumns_length:
  "length (fst (projectColumns cols m [])) = length cols"
  by (induction cols arbitrary: m)
     (auto simp add: projectColumns_Cons split: option.splits simp del: projectColumns.simps(2))

lemma projectColumns_nth:
  "i < length cols \<Longrightarrow>
   fst (projectColumns cols m []) ! i =
     (case m (Name (cols ! i)) of
        None \<Rightarrow> backquote (Name (cols ! i))
      | Some ref \<Rightarrow>
          if Name (cols ! i) \<in> Name ` set (take i cols) then backquote (Name (cols ! i)) else ref)"
proof (induction cols arbitrary: m i)
  case Nil
  then show ?case by simp
next
  case (Cons col cols)
  show ?case
  proof (cases i)
    case 0
    then show ?thesis
      by (simp add: projectColumns_Cons split: option.splits del: projectColumns.simps(2))
  next
    case (Suc j)
    with Cons.prems have j: "j < length cols" by simp
    show ?thesis
    proof (cases "m (Name col)")
      case None
      with Suc show ?thesis
        by (auto simp add: projectColumns_Cons Cons.IH [OF j] split: option.splits
            simp del: projectColumns.simps(2))
    next
      case (Some ref)
      with Suc show ?thesis
        by (auto simp add: projectColumns_Cons Cons.IH [OF j] split: option.splits
            simp del: projectColumns.simps(2))
    qed
  qed
qed

text \<open>
  Claim C2 says that the column-expression map is empty at the end of every project
  scan and that every computed expression is in the SELECT list once. An entry is
  removed only when a declared output column has its name: a computed column \<open>y\<close>
  that is not among the declared output columns is not emitted and stays in the map.
\<close>

theorem ProjectScan_map_not_empty_counterexample:
  "FormatSQL (ProjectScanNode (Some ([(LiteralNode (Some ''1''), Column ''y'' [])],
                                   WithRefScanNode (Some ''t''), [Column ''x'' ''t''])))
     (demoEnv [] Map.empty) demoState
   = Inr (''SELECT `x` FROM t'', demoState\<lparr>columnRefMap := [''y'' \<mapsto> ''1 AS `y`'']\<rparr>)"
  by (simp add: demoState_def backquote_def Let_def)

text \<open>
  Claim C2, amended. A project scan that formats its computed columns and its input
  emits one item per declared output column: the map entry of that name at the first
  occurrence of the name, the bare quoted name when there is no entry or the name
  occurred before. Exactly the entries named by a declared output column are removed;
  the map is empty at the end if and only if every entry present after the computed
  columns and the input is named by a declared output column.
\<close>

theorem ProjectScan_drains_declared_columns:
  assumes "forEach (\<lambda>col u. FormatSQL (ComputedColumnNode (Some col)) e u) ExprList s = Inr (exprs, s1)"
    and "FormatSQL InputScan e s1 = Inr (input, s2)"
  shows "\<exists>columns.
     FormatSQL (ProjectScanNode (Some (ExprList, InputScan, ColumnList))) e s
       = Inr (''SELECT '' @ Join columns '','' @ '' '' @ input,
              s2\<lparr>columnRefMap :=
                   (\<lambda>k. if k \<in> Name ` set ColumnList then None else columnRefMap s2 k)\<rparr>)
     \<and> length columns = length ColumnList
     \<and> (\<forall>i < length ColumnList.
          columns ! i =
            (case columnRefMap s2 (Name (ColumnList ! i)) of
               None \<Rightarrow> backquote (Name (ColumnList ! i))
             | Some ref \<Rightarrow>
                 if Name (ColumnList ! i) \<in> Name ` set (take i ColumnList)
                 then backquote (Name (ColumnList ! i)) else ref))
     \<and> ((\<lambda>k. if k \<in> Name ` set ColumnList then None else columnRefMap s2 k) = Map.empty
          \<longleftrightarrow> dom (columnRefMap s2) \<subseteq> Name ` set ColumnList)"
proof -
  obtain columns m' where pc: "projectColumns ColumnList (columnRefMap s2) [] = (columns, m')"
    by (cases "projectColumns ColumnList (columnRefMap s2) []")
  have m': "m' = (\<lambda>k. if k \<in> Name ` set ColumnList then None else columnRefMap s2 k)"
    using projectColumns_map [of ColumnList "columnRefMap s2"] pc by simp
  have len: "length columns = length ColumnList"
    using projectColumns_length [of ColumnList "columnRefMap s2"] pc by simp
  have nth: "\<forall>i < length ColumnList.
          columns ! i =
            (case columnRefMap s2 (Name (ColumnList ! i)) of
               None \<Rightarrow> backquote (Name (ColumnList ! i))
             | Some ref \<Rightarrow>
                 if Name (ColumnList ! i) \<in> Name ` set (take i ColumnList)
                 then backquote (Name (ColumnList ! i)) else ref)"
    using projectColumns_nth [of _ ColumnList "columnRefMap s2"] pc by simp
  have run: "FormatSQL (ProjectScanNode (Some (ExprList, InputScan, ColumnList))) e s
       = Inr (''SELECT '' @ Join columns '','' @ '' '' @ input, s2\<lparr>columnRefMap := m'\<rparr>)"
    using assms pc by simp
  have empty: "(\<lambda>k. if k \<in> Name ` set ColumnList then None else columnRefMap s2 k) = Map.empty
          \<longleftrightarrow> dom (columnRefMap s2) \<subseteq> Name ` set ColumnList"
    by (auto simp add: fun_eq_iff dom_def split: if_splits)
  from run m' len nth empty show ?thesis by blast
qed

theorem ProjectScan_drains_declared_columns_witness:
  "\<exists>columns.
     FormatSQL (ProjectScanNode (Some ([(LiteralNode (Some ''1''), Column ''y'' [])],
                                     WithRefScanNode (Some ''t''),
                                     [Column ''x'' ''t'', Column ''y'' [], Column ''y'' []])))
       (demoEnv [] Map.empty) demoState
       = Inr (''SELECT '' @ Join columns '','' @ '' FROM t'', demoState)
     \<and> columns = [''`x`'', ''1 AS `y`'', ''`y`'']"
proof -
  let ?e = "demoEnv [] Map.empty"
  let ?s2 = "demoState\<lparr>columnRefMap := [''y'' \<mapsto> ''1 AS `y`'']\<rparr>"
  let ?cols = "[Column ''x'' ''t'', Column ''y'' [], Column ''y'' []]"
  have exprs: "forEach (\<lambda>col u. FormatSQL (ComputedColumnNode (Some col)) ?e u)
                 [(LiteralNode (Some ''1''), Column ''y'' [])] demoState
               = Inr ([''1 AS `y`''], ?s2)"
    by (simp add: backquote_def Let_def demoState_def)
  have input: "FormatSQL (WithRefScanNode (Some ''t'')) ?e ?s2 = Inr (''FROM t'', ?s2)"
    by simp
  from ProjectScan_drains_declared_columns [OF exprs input, of ?cols]
  obtain columns where
    run: "FormatSQL (ProjectScanNode (Some ([(LiteralNode (Some ''1''), Column ''y'' [])],
                                     WithRefScanNode (Some ''t''), ?cols))) ?e demoState
          = Inr (''SELECT '' @ Join columns '','' @ '' '' @ ''FROM t'',
                 ?s2\<lparr>columnRefMap :=
                   (\<lambda>k. if k \<in> Name ` set ?cols then None else columnRefMap ?s2 k)\<rparr>)"
    and len: "length columns = length ?cols"
    and nth: "\<forall>i < length ?cols.
          columns ! i =
            (case columnRefMap ?s2 (Name (?cols ! i)) of
               None \<Rightarrow> backquote (Name (?cols ! i))
             | Some ref \<Rightarrow>
                 if Name (?cols ! i) \<in> Name ` set (take i ?cols)
                 then backquote (Name (?cols ! i)) else ref)"
    by blast
  have c0: "columns ! 0 = ''`x`''" using nth [rule_format, of 0] by (simp add: backquote_def)
  have c1: "columns ! 1 = ''1 AS `y`''" using nth [rule_format, of 1] by (simp add: backquote_def)
  have c2: "columns ! 2 = ''`y`''"
    using nth [rule_format, of 2] by (simp add: backquote_def numeral_2_eq_2)
  have cols: "columns = [''`x`'', ''1 AS `y`'', ''`y`'']"
    using len c0 c1 c2 by (intro nth_equalityI) (auto simp add: less_Suc_eq numeral_3_eq_3 numeral_2_eq_2)
  have final: "?s2\<lparr>columnRefMap :=
                   (\<lambda>k. if k \<in> Name ` set ?cols then None else columnRefMap ?s2 k)\<rparr> = demoState"
    by (auto simp add: demoState_def fun_eq_iff)
  from run cols final show ?thesis by simp
qed

section \<open>Analytic scans\<close>

lemma FormatSQL_AnalyticFunctionGroup:
  "FormatSQL (AnalyticFunctionGroupNode (Some (PartitionBy, OrderBy, AnalyticFunctionList))) e s =
     (case forEach (analyticFunctionStep e) AnalyticFunctionList s of
        Inl err \<Rightarrow> Inl err
      | Inr (queries, s1) \<Rightarrow> Inr (Join queries '','', s1))"
  unfolding FormatSQL.simps analyticFunctionStep_def [abs_def] ..

lemma FormatSQL_AnalyticScan:
  "FormatSQL (AnalyticScanNode (Some (InputScan, FunctionGroupList))) e s =
     (case FormatSQL InputScan e s of
        Inl err \<Rightarrow> Inl err
      | Inr (input, s1) \<Rightarrow>
          (case forEachCtx analyticGroupStep FunctionGroupList e s1 of
             Inl err \<Rightarrow> Inl err
           | Inr (_, e2, s2) \<Rightarrow>
               (let orderBy = ''ORDER BY '' @ Join (orderColumnNames s2) '',''
                in Inr (''FROM ( SELECT *, ROW_NUMBER() OVER() AS `rowid` '' @ input @ '' ) '' @ orderBy,
                        s2\<lparr>orderColumnNames := []\<rparr>))))"
  unfolding FormatSQL.simps analyticGroupStep_def [abs_def] ..

lemma analyticArguments_columns:
  "forEachCtx analyticArgument args e s = Inr (ts, e1, s1) \<Longrightarrow>
   ts = argumentColumns args \<and> orderColumnNames s1 = orderColumnNames s @ argumentColumns args"
proof (induction args arbitrary: e s ts)
  case Nil
  then show ?case by (simp add: argumentColumns_def)
next
  case (Cons a args)
  from Cons.prems obtain column where a: "a = ColumnRefNode (Some column)"
    by (auto simp add: analyticArgument_def split: node.splits option.splits)
  let ?arg = "backquote (Name column)"
  let ?e1 = "e\<lparr>analyticTableName := TableName column\<rparr>"
  let ?s1 = "s\<lparr>orderColumnNames := orderColumnNames s @ [?arg]\<rparr>"
  have step: "analyticArgument a e s = Inr (?arg, ?e1, ?s1)"
    by (simp add: a analyticArgument_def formatColumnRef_def)
  with Cons.prems obtain ts' where
    rest: "forEachCtx analyticArgument args ?e1 ?s1 = Inr (ts', e1, s1)" and ts: "ts = ?arg # ts'"
    by (auto split: sum.splits)
  from Cons.IH [OF rest] ts a show ?case
    by (simp add: argumentColumns_def)
qed

lemma resolveCallee_orderColumnNames:
  "resolveCallee prefix catalog fullName typeName args e s = Inr (r, s') \<Longrightarrow>
   orderColumnNames s' = orderColumnNames s"
  by (auto simp add: resolveCallee_def consumePath_def Let_def split: if_splits option.splits)

lemma offset_literal_state:
  "isOffsetLiteral x \<Longrightarrow> FormatSQL x e s = Inr (t, s') \<Longrightarrow> s' = s"
proof (cases x)
  case (LiteralNode v)
  then show "FormatSQL x e s = Inr (t, s') \<Longrightarrow> s' = s" by (cases v) auto
next
  case (ParameterNode v)
  then show "FormatSQL x e s = Inr (t, s') \<Longrightarrow> s' = s" by (cases v) auto
qed (simp_all add: isOffsetLiteral_def)

lemma boundary_literal_state:
  "isOffsetLiteral (snd expr) \<Longrightarrow>
   getWindowBoundaryOptionFuncSQL (\<lambda>x u. FormatSQL x e u) e expr isStart s = Inr (t, s') \<Longrightarrow> s' = s"
  by (cases "fst expr")
     (auto simp add: getWindowBoundaryOptionFuncSQL_def Let_def
        split: sum.splits dest: offset_literal_state)

lemma windowCall_columns:
  assumes "isWindowCall (x, column)" and "FormatSQL x e s = Inr (t, s1)"
  shows "orderColumnNames s1 @ [backquote (Name column)]
           = orderColumnNames s @ functionColumns (x, column)"
proof -
  from assms(1) obtain ArgumentList typeName fullName Distinct WindowFrame where
    x: "x = AnalyticFunctionCallNode (Some (ArgumentList, typeName, fullName, Distinct, WindowFrame))"
    by (auto simp add: isWindowCall_def split: node.splits option.splits)
  from assms(2) obtain args e1 sa where
    loop: "forEachCtx analyticArgument ArgumentList e s = Inr (args, e1, sa)"
    unfolding x FormatSQL_AnalyticFunctionCall by (auto simp add: Let_def split: sum.splits)
  note cols = analyticArguments_columns [OF loop]
  from assms(2) loop obtain r sb where
    callee: "resolveCallee ''zetasqlite_window_'' (windowFuncMap e1) fullName typeName args e1 sa
               = Inr (r, sb)"
    unfolding x FormatSQL_AnalyticFunctionCall
    by (auto simp add: Let_def split: sum.splits if_splits)
  note sb = resolveCallee_orderColumnNames [OF callee]
  have "orderColumnNames s1 = orderColumnNames sb"
  proof (cases r)
    case (Inlined sql)
    with assms(2) loop callee show ?thesis
      unfolding x FormatSQL_AnalyticFunctionCall
      by (auto simp add: Let_def split: if_splits)
  next
    case (Call funcName)
    show ?thesis
    proof (cases WindowFrame)
      case None
      with Call assms(2) loop callee show ?thesis
        unfolding x FormatSQL_AnalyticFunctionCall
        by (auto simp add: Let_def split: if_splits)
    next
      case (Some frame)
      obtain FrameUnit StartExpr EndExpr where frame: "frame = (FrameUnit, StartExpr, EndExpr)"
        by (cases frame) auto
      from assms(1) have lit: "isOffsetLiteral (snd StartExpr)" "isOffsetLiteral (snd EndExpr)"
        by (simp_all add: isWindowCall_def x Some frame)
      from Call Some frame assms(2) loop callee obtain t3 s3 t4 where
        b1: "getWindowBoundaryOptionFuncSQL (\<lambda>x u. FormatSQL x e1 u) e1 StartExpr True sb = Inr (t3, s3)"
        and b2: "getWindowBoundaryOptionFuncSQL (\<lambda>x u. FormatSQL x e1 u) e1 EndExpr False s3 = Inr (t4, s1)"
        unfolding x FormatSQL_AnalyticFunctionCall
        by (auto simp add: Let_def split: if_splits sum.splits)
      from boundary_literal_state [OF lit(1) b1] boundary_literal_state [OF lit(2) b2]
      show ?thesis by simp
    qed
  qed
  with sb cols show ?thesis
    by (simp add: functionColumns_def x)
qed

lemma analyticFunctionStep_columns:
  assumes "isWindowCall f" and "analyticFunctionStep e f s = Inr (t, s1)"
  shows "orderColumnNames s1 = orderColumnNames s @ functionColumns f"
proof -
  obtain x column where f: "f = (x, column)" by (cases f)
  from assms(2) obtain t' s' where
    run: "FormatSQL x e s = Inr (t', s')"
    and s1: "orderColumnNames s1 = orderColumnNames s' @ [backquote (Name column)]"
    by (auto simp add: analyticFunctionStep_def f Let_def split: sum.splits)
  from windowCall_columns [OF assms(1) [unfolded f] run] s1 show ?thesis
    by (simp add: f)
qed

lemma analyticFunctions_columns:
  "\<forall>f \<in> set fs. isWindowCall f \<Longrightarrow> forEach (analyticFunctionStep e) fs s = Inr (ts, s1) \<Longrightarrow>
   orderColumnNames s1 = orderColumnNames s @ concat (map functionColumns fs)"
proof (induction fs arbitrary: s ts)
  case Nil
  then show ?case by simp
next
  case (Cons f fs)
  from Cons.prems(2) obtain t s' ts' where
    step: "analyticFunctionStep e f s = Inr (t, s')"
    and rest: "forEach (analyticFunctionStep e) fs s' = Inr (ts', s1)"
    by (auto split: sum.splits)
  from Cons.prems(1) have f: "isWindowCall f" and fs: "\<forall>f \<in> set fs. isWindowCall f"
    by simp_all
  from analyticFunctionStep_columns [OF f step] Cons.IH [OF fs rest]
  show ?case by simp
qed

lemma enterGroup_columns:
  "orderColumnNames (snd (enterGroup PartitionBy OrderBy e s))
     = orderColumnNames s
       @ (case PartitionBy of None \<Rightarrow> [] | Some PartitionByList \<Rightarrow> map (\<lambda>c. backquote (Name c)) PartitionByList)
       @ (case OrderBy of
            None \<Rightarrow> []
          | Some OrderByItemList \<Rightarrow> map (\<lambda>item. backquote (Name (fst item))) OrderByItemList)"
  by (simp add: enterGroup_def Let_def split: option.splits)

lemma analyticGroupStep_columns:
  assumes "\<forall>f \<in> set (snd (snd grp)). isWindowCall f"
    and "analyticGroupStep grp e s = Inr (t, e1, s1)"
  shows "orderColumnNames s1 = orderColumnNames s @ groupColumns grp"
proof -
  obtain PartitionBy OrderBy fs where grp: "grp = (PartitionBy, OrderBy, fs)"
    by (cases grp) auto
  obtain c1 u1 where enter: "enterGroup PartitionBy OrderBy e s = (c1, u1)"
    by (cases "enterGroup PartitionBy OrderBy e s")
  from assms(2) obtain ts where
    loop: "forEach (analyticFunctionStep c1) fs u1 = Inr (ts, s1)"
    by (auto simp add: analyticGroupStep_def grp enter FormatSQL_AnalyticFunctionGroup
        simp del: FormatSQL.simps split: sum.splits)
  from assms(1) have "\<forall>f \<in> set fs. isWindowCall f" by (simp add: grp)
  from analyticFunctions_columns [OF this loop] enterGroup_columns [of PartitionBy OrderBy e s] enter
  show ?thesis by (simp add: groupColumns_def grp)
qed

lemma analyticGroups_columns:
  "\<forall>grp \<in> set grps. \<forall>f \<in> set (snd (snd grp)). isWindowCall f \<Longrightarrow>
   forEachCtx analyticGroupStep grps e s = Inr (ts, e1, s1) \<Longrightarrow>
   orderColumnNames s1 = orderColumnNames s @ concat (map groupColumns grps)"
proof (induction grps arbitrary: e s ts)
  case Nil
  then show ?case by simp
next
  case (Cons grp grps)
  from Cons.prems(2) obtain t e' s' ts' where
    step: "analyticGroupStep grp e s = Inr (t, e', s')"
    and rest: "forEachCtx analyticGroupStep grps e' s' = Inr (ts', e1, s1)"
    by (auto split: sum.splits)
  from Cons.prems(1) have g: "\<forall>f \<in> set (snd (snd grp)). isWindowCall f"
    and gs: "\<forall>grp \<in> set grps. \<forall>f \<in> set (snd (snd grp)). isWindowCall f"
    by simp_all
  from analyticGroupStep_columns [OF g step] Cons.IH [OF gs rest]
  show ?case by simp
qed

text \<open>
  Claim C7 says that the ORDER BY of an analytic scan lists exactly the collected
  partition, order and argument columns. The function group also appends the output
  column of every analytic function: with the partition column \<open>p\<close> and the function
  \<open>sum(a)\<close> computed as column \<open>w\<close>, the ORDER BY is \<open>`p`,`a`,`w`\<close>.
\<close>

theorem AnalyticScan_order_by_counterexample:
  "map_sum id fst
     (FormatSQL (AnalyticScanNode (Some (WithRefScanNode (Some ''t''),
          [(Some [Column ''p'' ''t''], None,
            [(AnalyticFunctionCallNode
                (Some ([ColumnRefNode (Some (Column ''a'' ''t''))], ''INT64'', ''sum'', False, None)),
              Column ''w'' [])])])))
       (demoEnv [] Map.empty) demoState)
   = Inr ''FROM ( SELECT *, ROW_NUMBER() OVER() AS `rowid` FROM t ) ORDER BY `p`,`a`,`w`''"
  by code_simp

text \<open>
  Claim C7, amended. An analytic scan that formats returns the formatted input wrapped
  in a derived table that selects all columns and \<open>ROW_NUMBER() OVER()\<close> as \<open>rowid\<close>,
  followed by an ORDER BY that lists the shared column list: what it held after the
  input was formatted, then for each group its partition columns, its order columns
  and, for each analytic function, the argument columns followed by the quoted output
  column of the function. The shared list is empty afterwards.
\<close>

theorem AnalyticScan_order_by:
  assumes "FormatSQL (AnalyticScanNode (Some (InputScan, FunctionGroupList))) e s = Inr (sql, s')"
    and "\<forall>grp \<in> set FunctionGroupList. \<forall>f \<in> set (snd (snd grp)). isWindowCall f"
  shows "\<exists>input s1.
     FormatSQL InputScan e s = Inr (input, s1)
     \<and> sql = ''FROM ( SELECT *, ROW_NUMBER() OVER() AS `rowid` '' @ input @ '' ) ORDER BY ''
              @ Join (orderColumnNames s1 @ concat (map groupColumns FunctionGroupList)) '',''
     \<and> orderColumnNames s' = []"
proof -
  from assms(1) obtain input s1 ts e2 s2 where
    input: "FormatSQL InputScan e s = Inr (input, s1)"
    and loop: "forEachCtx analyticGroupStep FunctionGroupList e s1 = Inr (ts, e2, s2)"
    and sql: "sql = ''FROM ( SELECT *, ROW_NUMBER() OVER() AS `rowid` '' @ input @ '' ) ORDER BY ''
                @ Join (orderColumnNames s2) '',''"
    and s': "s' = s2\<lparr>orderColumnNames := []\<rparr>"
    unfolding FormatSQL_AnalyticScan by (auto simp add: Let_def split: sum.splits)
  from analyticGroups_columns [OF assms(2) loop] input sql s' show ?thesis by simp
qed

theorem AnalyticScan_order_by_witness:
  "\<exists>input s1.
     FormatSQL (WithRefScanNode (Some ''t'')) (demoEnv [] Map.empty) demoState = Inr (input, s1)
     \<and> ''FROM ( SELECT *, ROW_NUMBER() OVER() AS `rowid` FROM t ) ORDER BY `p`,`a`,`w`''
         = ''FROM ( SELECT *, ROW_NUMBER() OVER() AS `rowid` '' @ input @ '' ) ORDER BY ''
           @ Join (orderColumnNames s1 @ [''`p`'', ''`a`'', ''`w`'']) '',''"
proof -
  let ?scan = "AnalyticScanNode (Some (WithRefScanNode (Some ''t''),
          [(Some [Column ''p'' ''t''], None,
            [(AnalyticFunctionCallNode
                (Some ([ColumnRefNode (Some (Column ''a'' ''t''))], ''INT64'', ''sum'', False, None)),
              Column ''w'' [])])]))"
  have "map_sum id fst (FormatSQL ?scan (demoEnv [] Map.empty) demoState)
          = Inr ''FROM ( SELECT *, ROW_NUMBER() OVER() AS `rowid` FROM t ) ORDER BY `p`,`a`,`w`''"
    by code_simp
  then obtain s' where
    run: "FormatSQL ?scan (demoEnv [] Map.empty) demoState
          = Inr (''FROM ( SELECT *, ROW_NUMBER() OVER() AS `rowid` FROM t ) ORDER BY `p`,`a`,`w`'', s')"
    by (cases "FormatSQL ?scan (demoEnv [] Map.empty) demoState") auto
  have calls: "\<forall>grp \<in> set [(Some [Column ''p'' ''t''], None,
            [(AnalyticFunctionCallNode
                (Some ([ColumnRefNode (Some (Column ''a'' ''t''))], ''INT64'', ''sum'', False, None)),
              Column ''w'' [])])]. \<forall>f \<in> set (snd (snd grp)). isWindowCall f"
    by (simp add: isWindowCall_def)
  from AnalyticScan_order_by [OF run calls] show ?thesis
    by (auto simp add: groupColumns_def functionColumns_def argumentColumns_def backquote_def
        simp del: FormatSQL.simps)
qed

section \<open>The name-path cursor\<close>

lemma forEach_idx_neutral:
  "\<forall>x \<in> set xs. \<forall>u t u'. body x u = Inr (t, u') \<longrightarrow> idx u' = idx u \<Longrightarrow>
   forEach body xs s = Inr (ts, s') \<Longrightarrow> idx s' = idx s"
proof (induction xs arbitrary: s ts)
  case Nil
  then show ?case by simp
next
  case (Cons x xs)
  from Cons.prems(2) obtain t s1 ts' where
    step: "body x s = Inr (t, s1)" and rest: "forEach body xs s1 = Inr (ts', s')"
    by (auto split: sum.splits)
  from Cons.prems(1) step have "idx s1 = idx s" by simp
  moreover from Cons.prems(1) have "idx s' = idx s1"
    by (intro Cons.IH [OF _ rest]) simp
  ultimately show ?case by simp
qed

lemma consumePath_advance:
  "idx s < length (paths e) \<Longrightarrow>
   consumePath e s = Inr (FormatName (MergeNamePath (namePath e) (paths e ! idx s)), s\<lparr>idx := idx s + 1\<rparr>)"
  by (simp add: consumePath_def)

text \<open>
  Claim C3. With a name path left under the cursor, a table scan returns with the
  index advanced by exactly one and nothing else changed. An insert, delete or update
  statement formats its children (rows, update items, WHERE) starting from the state
  whose index is one more than the initial one and nothing else changed: when the
  children format, the statement returns its text and the state the children leave,
  so that with children that do not move the index the statement advances it by
  exactly one; when a child fails, the statement fails with the same error.
\<close>

theorem name_path_cursor_advances_once:
  assumes "idx s < length (paths e)"
  shows
   "FormatSQL (TableScanNode (Some p)) e s
      = Inr (''FROM '' @ backquote (FormatName (MergeNamePath (namePath e) (paths e ! idx s))),
             s\<lparr>idx := idx s + 1\<rparr>)
    \<and> (forEach (\<lambda>row u. FormatSQL (InsertRowNode (Some row)) e u) RowList
           (s\<lparr>idx := idx s + 1\<rparr>) = Inr (rows, s1) \<longrightarrow>
         FormatSQL (InsertStmtNode (Some (InsertColumnList, RowList))) e s
           = Inr (''INSERT INTO ''
                    @ backquote (FormatName (MergeNamePath (namePath e) (paths e ! idx s)))
                    @ '' ('' @ Join (map (\<lambda>col. backquote (Name col)) InsertColumnList) '',''
                    @ '') VALUES '' @ Join rows '','', s1)
         \<and> ((\<forall>row \<in> set RowList. \<forall>u t u'.
                FormatSQL (InsertRowNode (Some row)) e u = Inr (t, u') \<longrightarrow> idx u' = idx u)
              \<longrightarrow> idx s1 = idx s + 1))
    \<and> (forEach (\<lambda>row u. FormatSQL (InsertRowNode (Some row)) e u) RowList
           (s\<lparr>idx := idx s + 1\<rparr>) = Inl err1 \<longrightarrow>
         FormatSQL (InsertStmtNode (Some (InsertColumnList, RowList))) e s = Inl err1)
    \<and> (FormatSQL DeleteWhere e (s\<lparr>idx := idx s + 1\<rparr>) = Inr (deleteWhereSQL, s2) \<longrightarrow>
         FormatSQL (DeleteStmtNode (Some DeleteWhere)) e s
           = Inr (''DELETE FROM ''
                    @ backquote (FormatName (MergeNamePath (namePath e) (paths e ! idx s)))
                    @ '' WHERE '' @ deleteWhereSQL, s2)
         \<and> ((\<forall>u t u'. FormatSQL DeleteWhere e u = Inr (t, u') \<longrightarrow> idx u' = idx u)
              \<longrightarrow> idx s2 = idx s + 1))
    \<and> (FormatSQL DeleteWhere e (s\<lparr>idx := idx s + 1\<rparr>) = Inl err2 \<longrightarrow>
         FormatSQL (DeleteStmtNode (Some DeleteWhere)) e s = Inl err2)
    \<and> (forEach (\<lambda>item u. FormatSQL (UpdateItemNode (Some item)) e u) UpdateItemList
           (s\<lparr>idx := idx s + 1\<rparr>) = Inr (items, s') \<longrightarrow>
         (FormatSQL UpdateWhere e s' = Inr (updateWhereSQL, s3) \<longrightarrow>
            FormatSQL (UpdateStmtNode (Some (UpdateItemList, UpdateWhere))) e s
              = Inr (''UPDATE ''
                       @ backquote (FormatName (MergeNamePath (namePath e) (paths e ! idx s)))
                       @ '' SET '' @ Join items '','' @ '' WHERE '' @ updateWhereSQL, s3)
            \<and> ((\<forall>item \<in> set UpdateItemList. \<forall>u t u'.
                   FormatSQL (UpdateItemNode (Some item)) e u = Inr (t, u') \<longrightarrow> idx u' = idx u)
                 \<longrightarrow> (\<forall>u t u'. FormatSQL UpdateWhere e u = Inr (t, u') \<longrightarrow> idx u' = idx u)
                 \<longrightarrow> idx s3 = idx s + 1))
         \<and> (FormatSQL UpdateWhere e s' = Inl err3 \<longrightarrow>
            FormatSQL (UpdateStmtNode (Some (UpdateItemList, UpdateWhere))) e s = Inl err3))
    \<and> (forEach (\<lambda>item u. FormatSQL (UpdateItemNode (Some item)) e u) UpdateItemList
           (s\<lparr>idx := idx s + 1\<rparr>) = Inl err4 \<longrightarrow>
         FormatSQL (UpdateStmtNode (Some (UpdateItemList, UpdateWhere))) e s = Inl err4)"
proof -
  note cp = consumePath_advance [OF assms]
  have scan: "FormatSQL (TableScanNode (Some p)) e s
      = Inr (''FROM '' @ backquote (FormatName (MergeNamePath (namePath e) (paths e ! idx s))),
             s\<lparr>idx := idx s + 1\<rparr>)"
    by (simp add: cp)
  have ins: "FormatSQL (InsertStmtNode (Some (InsertColumnList, RowList))) e s
           = Inr (''INSERT INTO ''
                    @ backquote (FormatName (MergeNamePath (namePath e) (paths e ! idx s)))
                    @ '' ('' @ Join (map (\<lambda>col. backquote (Name col)) InsertColumnList) '',''
                    @ '') VALUES '' @ Join rows '','', s1)"
    if "forEach (\<lambda>row u. FormatSQL (InsertRowNode (Some row)) e u) RowList
           (s\<lparr>idx := idx s + 1\<rparr>) = Inr (rows, s1)"
    using that unfolding FormatSQL.simps Let_def cp by simp
  have ins_idx: "idx s1 = idx s + 1"
    if "forEach (\<lambda>row u. FormatSQL (InsertRowNode (Some row)) e u) RowList
           (s\<lparr>idx := idx s + 1\<rparr>) = Inr (rows, s1)"
      and "\<forall>row \<in> set RowList. \<forall>u t u'.
                FormatSQL (InsertRowNode (Some row)) e u = Inr (t, u') \<longrightarrow> idx u' = idx u"
    using forEach_idx_neutral [OF _ that(1)] that(2) by (simp del: FormatSQL.simps)
  have ins_err: "FormatSQL (InsertStmtNode (Some (InsertColumnList, RowList))) e s = Inl err1"
    if "forEach (\<lambda>row u. FormatSQL (InsertRowNode (Some row)) e u) RowList
           (s\<lparr>idx := idx s + 1\<rparr>) = Inl err1"
    using that unfolding FormatSQL.simps Let_def cp by simp
  have del: "FormatSQL (DeleteStmtNode (Some DeleteWhere)) e s
           = Inr (''DELETE FROM ''
                    @ backquote (FormatName (MergeNamePath (namePath e) (paths e ! idx s)))
                    @ '' WHERE '' @ deleteWhereSQL, s2)"
    if "FormatSQL DeleteWhere e (s\<lparr>idx := idx s + 1\<rparr>) = Inr (deleteWhereSQL, s2)"
    using that by (simp add: cp)
  have del_idx: "idx s2 = idx s + 1"
    if "FormatSQL DeleteWhere e (s\<lparr>idx := idx s + 1\<rparr>) = Inr (deleteWhereSQL, s2)"
      and "\<forall>u t u'. FormatSQL DeleteWhere e u = Inr (t, u') \<longrightarrow> idx u' = idx u"
    using that(2) [rule_format, OF that(1)] by simp
  have del_err: "FormatSQL (DeleteStmtNode (Some DeleteWhere)) e s = Inl err2"
    if "FormatSQL DeleteWhere e (s\<lparr>idx := idx s + 1\<rparr>) = Inl err2"
    using that by (simp add: cp)
  have upd: "FormatSQL (UpdateStmtNode (Some (UpdateItemList, UpdateWhere))) e s
              = Inr (''UPDATE ''
                       @ backquote (FormatName (MergeNamePath (namePath e) (paths e ! idx s)))
                       @ '' SET '' @ Join items '','' @ '' WHERE '' @ updateWhereSQL, s3)"
    if "forEach (\<lambda>item u. FormatSQL (UpdateItemNode (Some item)) e u) UpdateItemList
           (s\<lparr>idx := idx s + 1\<rparr>) = Inr (items, s')"
      and "FormatSQL UpdateWhere e s' = Inr (updateWhereSQL, s3)"
    using that unfolding FormatSQL.simps Let_def cp by simp
  have upd_idx: "idx s3 = idx s + 1"
    if "forEach (\<lambda>item u. FormatSQL (UpdateItemNode (Some item)) e u) UpdateItemList
           (s\<lparr>idx := idx s + 1\<rparr>) = Inr (items, s')"
      and "FormatSQL UpdateWhere e s' = Inr (updateWhereSQL, s3)"
      and "\<forall>item \<in> set UpdateItemList. \<forall>u t u'.
                   FormatSQL (UpdateItemNode (Some item)) e u = Inr (t, u') \<longrightarrow> idx u' = idx u"
      and "\<forall>u t u'. FormatSQL UpdateWhere e u = Inr (t, u') \<longrightarrow> idx u' = idx u"
  proof -
    have "idx s' = idx (s\<lparr>idx := idx s + 1\<rparr>)"
      using that(3) by (intro forEach_idx_neutral [OF _ that(1)]) (simp del: FormatSQL.simps)
    moreover have "idx s3 = idx s'" using that(4) [rule_format, OF that(2)] .
    ultimately show ?thesis by simp
  qed
  have upd_err_where: "FormatSQL (UpdateStmtNode (Some (UpdateItemList, UpdateWhere))) e s = Inl err3"
    if "forEach (\<lambda>item u. FormatSQL (UpdateItemNode (Some item)) e u) UpdateItemList
           (s\<lparr>idx := idx s + 1\<rparr>) = Inr (items, s')"
      and "FormatSQL UpdateWhere e s' = Inl err3"
    using that unfolding FormatSQL.simps Let_def cp by simp
  have upd_err: "FormatSQL (UpdateStmtNode (Some (UpdateItemList, UpdateWhere))) e s = Inl err4"
    if "forEach (\<lambda>item u. FormatSQL (UpdateItemNode (Some item)) e u) UpdateItemList
           (s\<lparr>idx := idx s + 1\<rparr>) = Inl err4"
    using that unfolding FormatSQL.simps Let_def cp by simp
  from scan ins ins_idx ins_err del del_idx del_err upd upd_idx upd_err_where upd_err
  show ?thesis by blast
qed

theorem name_path_cursor_advances_once_witness:
  "FormatSQL (TableScanNode (Some ())) (demoEnv [[''db'', ''t'']] Map.empty) demoState
     = Inr (''FROM `db_t`'', demoState\<lparr>idx := 1\<rparr>)
   \<and> FormatSQL (InsertStmtNode (Some ([Column ''x'' ''t''], [[LiteralNode (Some ''1'')]])))
         (demoEnv [[''db'', ''t'']] Map.empty) demoState
       = Inr (''INSERT INTO `db_t` (`x`) VALUES (1)'', demoState\<lparr>idx := 1\<rparr>)
   \<and> FormatSQL (DeleteStmtNode (Some (LiteralNode (Some ''true''))))
         (demoEnv [[''db'', ''t'']] Map.empty) demoState
       = Inr (''DELETE FROM `db_t` WHERE true'', demoState\<lparr>idx := 1\<rparr>)
   \<and> FormatSQL (UpdateStmtNode (Some ([(ColumnRefNode (Some (Column ''x'' ''t'')),
                                         Some (LiteralNode (Some ''1'')))],
                                      LiteralNode (Some ''true''))))
         (demoEnv [[''db'', ''t'']] Map.empty) demoState
       = Inr (''UPDATE `db_t` SET `x`=1 WHERE true'', demoState\<lparr>idx := 1\<rparr>)
   \<and> idx (demoState\<lparr>idx := 1\<rparr>) = idx demoState + 1"
proof -
  let ?e = "demoEnv [[''db'', ''t'']] Map.empty"
  let ?s1 = "demoState\<lparr>idx := 1\<rparr>"
  let ?rowList = "[[LiteralNode (Some ''1'')]]"
  let ?itemList = "[(ColumnRefNode (Some (Column ''x'' ''t'')), Some (LiteralNode (Some ''1'')))]"
  let ?where = "LiteralNode (Some ''true'')"
  have h: "idx demoState < length (paths ?e)"
    by (simp add: demoState_def)
  have name: "FormatName (MergeNamePath (namePath ?e) (paths ?e ! idx demoState)) = ''db_t''"
    by (simp add: demoState_def FormatName_def MergeNamePath_def)
  have next_state: "demoState\<lparr>idx := idx demoState + 1\<rparr> = ?s1"
    by (simp add: demoState_def)
  have rows: "forEach (\<lambda>row u. FormatSQL (InsertRowNode (Some row)) ?e u) ?rowList
                (demoState\<lparr>idx := idx demoState + 1\<rparr>) = Inr ([''(1)''], ?s1)"
    by (simp add: demoState_def)
  have rows_neutral: "\<forall>row \<in> set ?rowList. \<forall>u t u'.
      FormatSQL (InsertRowNode (Some row)) ?e u = Inr (t, u') \<longrightarrow> idx u' = idx u"
    by auto
  have delete_where: "FormatSQL ?where ?e (demoState\<lparr>idx := idx demoState + 1\<rparr>)
                = Inr (''true'', ?s1)"
    by (simp add: demoState_def)
  have where_neutral: "\<forall>u t u'. FormatSQL ?where ?e u = Inr (t, u') \<longrightarrow> idx u' = idx u"
    by auto
  have items: "forEach (\<lambda>item u. FormatSQL (UpdateItemNode (Some item)) ?e u) ?itemList
                (demoState\<lparr>idx := idx demoState + 1\<rparr>) = Inr ([''`x`=1''], ?s1)"
    by (simp add: demoState_def formatColumnRef_def backquote_def)
  have items_neutral: "\<forall>item \<in> set ?itemList. \<forall>u t u'.
      FormatSQL (UpdateItemNode (Some item)) ?e u = Inr (t, u') \<longrightarrow> idx u' = idx u"
    by auto
  have update_where: "FormatSQL ?where ?e ?s1 = Inr (''true'', ?s1)"
    by simp
  note T = name_path_cursor_advances_once [OF h, where p = "()" and RowList = ?rowList
      and rows = "[''(1)'']" and ?s1.0 = ?s1 and InsertColumnList = "[Column ''x'' ''t'']"
      and DeleteWhere = ?where and deleteWhereSQL = "''true''" and ?s2.0 = ?s1
      and UpdateItemList = ?itemList and items = "[''`x`=1'']" and s' = ?s1
      and UpdateWhere = ?where and updateWhereSQL = "''true''" and ?s3.0 = ?s1]
  have scan: "FormatSQL (TableScanNode (Some ())) ?e demoState
      = Inr (''FROM '' @ backquote (FormatName (MergeNamePath (namePath ?e) (paths ?e ! idx demoState))),
             demoState\<lparr>idx := idx demoState + 1\<rparr>)"
    using T by blast
  have ins: "FormatSQL (InsertStmtNode (Some ([Column ''x'' ''t''], ?rowList))) ?e demoState
      = Inr (''INSERT INTO ''
               @ backquote (FormatName (MergeNamePath (namePath ?e) (paths ?e ! idx demoState)))
               @ '' ('' @ Join (map (\<lambda>col. backquote (Name col)) [Column ''x'' ''t'']) '',''
               @ '') VALUES '' @ Join [''(1)''] '','', ?s1)"
    and ins_idx: "idx ?s1 = idx demoState + 1"
    using T rows rows_neutral by blast+
  have del: "FormatSQL (DeleteStmtNode (Some ?where)) ?e demoState
      = Inr (''DELETE FROM ''
               @ backquote (FormatName (MergeNamePath (namePath ?e) (paths ?e ! idx demoState)))
               @ '' WHERE '' @ ''true'', ?s1)"
    using T delete_where by blast
  have upd: "FormatSQL (UpdateStmtNode (Some (?itemList, ?where))) ?e demoState
      = Inr (''UPDATE ''
               @ backquote (FormatName (MergeNamePath (namePath ?e) (paths ?e ! idx demoState)))
               @ '' SET '' @ Join [''`x`=1''] '','' @ '' WHERE '' @ ''true'', ?s1)"
    using T items update_where by blast
  from scan ins ins_idx del upd show ?thesis
    unfolding name next_state by (simp add: backquote_def del: FormatSQL.simps)
qed

section \<open>Function names\<close>

lemma FormatSQL_AggregateFunctionCall:
  "FormatSQL (AggregateFunctionCallNode
      (Some (ArgumentList, typeName, fullName, OrderByItemList, Distinct, Limit))) e s =
     (case forEach (\<lambda>a u. FormatSQL a e u) ArgumentList s of
        Inl err \<Rightarrow> Inl err
      | Inr (args, s1) \<Rightarrow>
          (case resolveCallee ''zetasqlite_'' (aggregateFuncMap e) fullName typeName args e s1 of
             Inl err \<Rightarrow> Inl err
           | Inr (Inlined sql, s2) \<Rightarrow> Inr (sql, s2)
           | Inr (Call funcName, s2) \<Rightarrow>
               (case forEach (orderByOption e) OrderByItemList s2 of
                  Inl err \<Rightarrow> Inl err
                | Inr (orderOpts, s3) \<Rightarrow>
                    (let opts = orderOpts @ (if Distinct then [''zetasqlite_distinct_string()''] else [])
                     in case Limit of
                          None \<Rightarrow> Inr (formatCall funcName (args @ opts), s3)
                        | Some limit \<Rightarrow>
                            (case FormatSQL limit e s3 of
                               Inl err \<Rightarrow> Inl err
                             | Inr (limitValue, s4) \<Rightarrow>
                                 Inr (formatCall funcName
                                        (args @ opts
                                           @ [''zetasqlite_limit_string('' @ limitValue @ '')'']),
                                      s4))))))"
  unfolding FormatSQL.simps orderByOption_def [abs_def] ..

lemma orderByOptions_text:
  "forEach (orderByOption e) items s = Inr (map orderByOptionText items, s)"
  by (induction items)
     (simp_all add: orderByOption_def orderByOptionText_def formatColumnRef_def)

lemma resolveCallee_builtin:
  "HasPrefix fullName ''$'' \<or> fullName \<in> catalog \<Longrightarrow>
   resolveCallee prefix catalog fullName typeName args e s
     = Inr (Call (mangledName e prefix fullName typeName), s)"
  by (auto simp add: resolveCallee_def resultTypeFamily_def mangle_def mangledName_def Let_def)

lemma analyticArguments_env:
  "forEachCtx analyticArgument args e s = Inr (ts, e1, s1) \<Longrightarrow>
   e1 = e\<lparr>analyticTableName := analyticTableName e1\<rparr>"
proof (induction args arbitrary: e s ts)
  case Nil
  then show ?case by simp
next
  case (Cons a args)
  from Cons.prems obtain column where a: "a = ColumnRefNode (Some column)"
    by (auto simp add: analyticArgument_def split: node.splits option.splits)
  let ?e1 = "e\<lparr>analyticTableName := TableName column\<rparr>"
  let ?s1 = "s\<lparr>orderColumnNames := orderColumnNames s @ [backquote (Name column)]\<rparr>"
  have step: "analyticArgument a e s = Inr (backquote (Name column), ?e1, ?s1)"
    by (simp add: a analyticArgument_def formatColumnRef_def)
  with Cons.prems obtain ts' where
    rest: "forEachCtx analyticArgument args ?e1 ?s1 = Inr (ts', e1, s1)"
    by (auto split: sum.splits)
  from Cons.IH [OF rest] have "e1 = ?e1\<lparr>analyticTableName := analyticTableName e1\<rparr>" .
  then show ?case by simp
qed

lemma mangledName_env:
  "mangledName (e\<lparr>analyticTableName := t\<rparr>) prefix fullName typeName
     = mangledName e prefix fullName typeName"
  by (simp add: mangledName_def)

text \<open>
  Claim C5. A scalar, aggregate or analytic function call whose name starts with the
  sigil \<open>$\<close> or is in the catalog of its kind is emitted under the name
  \<open>mangledName\<close>: the prefix (\<open>zetasqlite_\<close>, or \<open>zetasqlite_window_\<close> for an analytic
  call), the bare name, an underscore and the family, where the family is the
  lower-cased type name of the result, or \<open>struct\<close> when that starts with \<open>struct\<close>.
  The built-in \<open>sum\<close> is \<open>zetasqlite_sum_int64\<close> for the result type INT64 and
  \<open>zetasqlite_sum_struct\<close> for every structured result type. Two result types of the
  same family give the same output.
\<close>

theorem function_name_mangling:
  "(HasPrefix fullName ''$'' \<or> fullName \<in> normalFuncMap e \<longrightarrow>
      forEach (\<lambda>a u. FormatSQL a e u) ArgumentList s = Inr (args, s1) \<longrightarrow>
      FormatSQL (FunctionCallNode (Some (ArgumentList, typeName, fullName))) e s
        = Inr (mangledName e ''zetasqlite_'' fullName typeName
                 @ ''('' @ Join args '','' @ '')'', s1))
   \<and> (HasPrefix fullName ''$'' \<or> fullName \<in> aggregateFuncMap e \<longrightarrow>
      forEach (\<lambda>a u. FormatSQL a e u) ArgumentList s = Inr (args, s1) \<longrightarrow>
      FormatSQL (AggregateFunctionCallNode
                   (Some (ArgumentList, typeName, fullName, OrderByItemList, Distinct, None))) e s
        = Inr (mangledName e ''zetasqlite_'' fullName typeName
                 @ ''('' @ Join (args @ map orderByOptionText OrderByItemList
                                  @ (if Distinct then [''zetasqlite_distinct_string()''] else []))
                            '',''
                 @ '')'', s1)
      \<and> (FormatSQL limit e s1 = Inr (limitValue, s2) \<longrightarrow>
           FormatSQL (AggregateFunctionCallNode
                        (Some (ArgumentList, typeName, fullName, OrderByItemList, Distinct,
                               Some limit))) e s
             = Inr (mangledName e ''zetasqlite_'' fullName typeName
                      @ ''('' @ Join (args @ map orderByOptionText OrderByItemList
                                       @ (if Distinct then [''zetasqlite_distinct_string()''] else [])
                                       @ [''zetasqlite_limit_string('' @ limitValue @ '')''])
                                 '',''
                      @ '')'', s2)))
   \<and> (HasPrefix fullName ''$'' \<or> fullName \<in> windowFuncMap e \<longrightarrow>
      forEachCtx analyticArgument ArgumentList e s = Inr (args, e1, s1) \<longrightarrow>
      analyticTableName e1 \<noteq> [] \<longrightarrow>
      FormatSQL (AnalyticFunctionCallNode
                   (Some (ArgumentList, typeName, fullName, Distinct, None))) e s
        = Inr (''( SELECT '' @ mangledName e ''zetasqlite_window_'' fullName typeName
                 @ ''('' @ Join (args
                                  @ (if Distinct then [''zetasqlite_distinct_string()''] else [])
                                  @ map (getWindowPartitionOptionFuncSQL e1)
                                      (analyticPartitionColumnNames e1)
                                  @ map (getWindowOrderByOptionFuncSQL e1) (orderColumnNames s)
                                  @ [getWindowRowIDOptionFuncSQL e1])
                            '',''
                 @ '') FROM '' @ analyticTableName e1 @ '' )'', s1)
      \<and> (getWindowBoundaryOptionFuncSQL (\<lambda>x u. FormatSQL x e1 u) e1 StartExpr True s1
             = Inr (startSQL, s3) \<longrightarrow>
           getWindowBoundaryOptionFuncSQL (\<lambda>x u. FormatSQL x e1 u) e1 EndExpr False s3
             = Inr (endSQL, s4) \<longrightarrow>
           FormatSQL (AnalyticFunctionCallNode
                        (Some (ArgumentList, typeName, fullName, Distinct,
                               Some (FrameUnit, StartExpr, EndExpr)))) e s
             = Inr (''( SELECT '' @ mangledName e ''zetasqlite_window_'' fullName typeName
                      @ ''('' @ Join (args
                                       @ (if Distinct then [''zetasqlite_distinct_string()''] else [])
                                       @ map (getWindowPartitionOptionFuncSQL e1)
                                           (analyticPartitionColumnNames e1)
                                       @ map (getWindowOrderByOptionFuncSQL e1) (orderColumnNames s)
                                       @ [getWindowFrameUnitOptionFuncSQL e1 FrameUnit,
                                          startSQL, endSQL, getWindowRowIDOptionFuncSQL e1])
                                 '',''
                      @ '') FROM '' @ analyticTableName e1 @ '' )'', s4)))
   \<and> mangledName e ''zetasqlite_'' ''$sum'' ''INT64'' = ''zetasqlite_sum_int64''
   \<and> (HasPrefix (ToLower (unicodeToLower e) structType) ''struct'' \<longrightarrow>
        mangledName e ''zetasqlite_'' ''$sum'' structType = ''zetasqlite_sum_struct'')
   \<and> (resultTypeFamily e typeName = resultTypeFamily e typeName' \<longrightarrow>
        FormatSQL (FunctionCallNode (Some (ArgumentList, typeName, fullName))) e s
          = FormatSQL (FunctionCallNode (Some (ArgumentList, typeName', fullName))) e s
        \<and> mangledName e prefix fullName typeName = mangledName e prefix fullName typeName')"
proof -
  have scalar: "FormatSQL (FunctionCallNode (Some (ArgumentList, typeName, fullName))) e s
        = Inr (mangledName e ''zetasqlite_'' fullName typeName
                 @ ''('' @ Join args '','' @ '')'', s1)"
    if "HasPrefix fullName ''$'' \<or> fullName \<in> normalFuncMap e"
      and "forEach (\<lambda>a u. FormatSQL a e u) ArgumentList s = Inr (args, s1)"
    using that by (simp add: resolveCallee_builtin formatCall_def)
  have agg: "FormatSQL (AggregateFunctionCallNode
                   (Some (ArgumentList, typeName, fullName, OrderByItemList, Distinct, None))) e s
        = Inr (mangledName e ''zetasqlite_'' fullName typeName
                 @ ''('' @ Join (args @ map orderByOptionText OrderByItemList
                                  @ (if Distinct then [''zetasqlite_distinct_string()''] else []))
                            '',''
                 @ '')'', s1)"
    if "HasPrefix fullName ''$'' \<or> fullName \<in> aggregateFuncMap e"
      and "forEach (\<lambda>a u. FormatSQL a e u) ArgumentList s = Inr (args, s1)"
    using that
    by (simp add: FormatSQL_AggregateFunctionCall resolveCallee_builtin orderByOptions_text
        formatCall_def del: FormatSQL.simps)
  have agg_limit: "FormatSQL (AggregateFunctionCallNode
                        (Some (ArgumentList, typeName, fullName, OrderByItemList, Distinct,
                               Some limit))) e s
             = Inr (mangledName e ''zetasqlite_'' fullName typeName
                      @ ''('' @ Join (args @ map orderByOptionText OrderByItemList
                                       @ (if Distinct then [''zetasqlite_distinct_string()''] else [])
                                       @ [''zetasqlite_limit_string('' @ limitValue @ '')''])
                                 '',''
                      @ '')'', s2)"
    if "HasPrefix fullName ''$'' \<or> fullName \<in> aggregateFuncMap e"
      and "forEach (\<lambda>a u. FormatSQL a e u) ArgumentList s = Inr (args, s1)"
      and "FormatSQL limit e s1 = Inr (limitValue, s2)"
    using that
    by (simp add: FormatSQL_AggregateFunctionCall resolveCallee_builtin orderByOptions_text
        formatCall_def del: FormatSQL.simps)
  have env: "e1 = e\<lparr>analyticTableName := analyticTableName e1\<rparr>"
    if "forEachCtx analyticArgument ArgumentList e s = Inr (args, e1, s1)"
    using analyticArguments_env [OF that] .
  have callee: "resolveCallee ''zetasqlite_window_'' (windowFuncMap e1) fullName typeName args e1 s1
                  = Inr (Call (mangledName e ''zetasqlite_window_'' fullName typeName), s1)"
    if "HasPrefix fullName ''$'' \<or> fullName \<in> windowFuncMap e"
      and "forEachCtx analyticArgument ArgumentList e s = Inr (args, e1, s1)"
  proof -
    from env [OF that(2)] have w: "windowFuncMap e1 = windowFuncMap e"
      by (metis env.select_convs env.surjective env.update_convs(7))
    from env [OF that(2)] have m: "mangledName e1 ''zetasqlite_window_'' fullName typeName
        = mangledName e ''zetasqlite_window_'' fullName typeName"
      using mangledName_env [where e = e and t = "analyticTableName e1"] by simp
    from that(1) w have "HasPrefix fullName ''$'' \<or> fullName \<in> windowFuncMap e1" by simp
    from resolveCallee_builtin [OF this] m show ?thesis by simp
  qed
  have win: "FormatSQL (AnalyticFunctionCallNode
                   (Some (ArgumentList, typeName, fullName, Distinct, None))) e s
        = Inr (''( SELECT '' @ mangledName e ''zetasqlite_window_'' fullName typeName
                 @ ''('' @ Join (args
                                  @ (if Distinct then [''zetasqlite_distinct_string()''] else [])
                                  @ map (getWindowPartitionOptionFuncSQL e1)
                                      (analyticPartitionColumnNames e1)
                                  @ map (getWindowOrderByOptionFuncSQL e1) (orderColumnNames s)
                                  @ [getWindowRowIDOptionFuncSQL e1])
                            '',''
                 @ '') FROM '' @ analyticTableName e1 @ '' )'', s1)"
    if "HasPrefix fullName ''$'' \<or> fullName \<in> windowFuncMap e"
      and "forEachCtx analyticArgument ArgumentList e s = Inr (args, e1, s1)"
      and "analyticTableName e1 \<noteq> []"
    using that(2,3) callee [OF that(1,2)]
    by (simp add: FormatSQL_AnalyticFunctionCall formatAnalyticCall_def Let_def
        del: FormatSQL.simps)
  have win_frame: "FormatSQL (AnalyticFunctionCallNode
                        (Some (ArgumentList, typeName, fullName, Distinct,
                               Some (FrameUnit, StartExpr, EndExpr)))) e s
             = Inr (''( SELECT '' @ mangledName e ''zetasqlite_window_'' fullName typeName
                      @ ''('' @ Join (args
                                       @ (if Distinct then [''zetasqlite_distinct_string()''] else [])
                                       @ map (getWindowPartitionOptionFuncSQL e1)
                                           (analyticPartitionColumnNames e1)
                                       @ map (getWindowOrderByOptionFuncSQL e1) (orderColumnNames s)
                                       @ [getWindowFrameUnitOptionFuncSQL e1 FrameUnit,
                                          startSQL, endSQL, getWindowRowIDOptionFuncSQL e1])
                                 '',''
                      @ '') FROM '' @ analyticTableName e1 @ '' )'', s4)"
    if "HasPrefix fullName ''$'' \<or> fullName \<in> windowFuncMap e"
      and "forEachCtx analyticArgument ArgumentList e s = Inr (args, e1, s1)"
      and "analyticTableName e1 \<noteq> []"
      and "getWindowBoundaryOptionFuncSQL (\<lambda>x u. FormatSQL x e1 u) e1 StartExpr True s1
             = Inr (startSQL, s3)"
      and "getWindowBoundaryOptionFuncSQL (\<lambda>x u. FormatSQL x e1 u) e1 EndExpr False s3
             = Inr (endSQL, s4)"
    using that(2,3,4,5) callee [OF that(1,2)]
    by (simp add: FormatSQL_AnalyticFunctionCall formatAnalyticCall_def Let_def
        del: FormatSQL.simps)
  have int64: "mangledName e ''zetasqlite_'' ''$sum'' ''INT64'' = ''zetasqlite_sum_int64''"
    by (simp add: mangledName_def HasPrefix_def ToLower_def isASCII_def ToLowerChar_def)
  have struct: "mangledName e ''zetasqlite_'' ''$sum'' structType = ''zetasqlite_sum_struct''"
    if "HasPrefix (ToLower (unicodeToLower e) structType) ''struct''"
    using that by (simp add: mangledName_def HasPrefix_def)
  have pure1: "FormatSQL (FunctionCallNode (Some (ArgumentList, typeName, fullName))) e s
          = FormatSQL (FunctionCallNode (Some (ArgumentList, typeName', fullName))) e s"
    if "resultTypeFamily e typeName = resultTypeFamily e typeName'"
    using that by (simp add: resolveCallee_def split: sum.split prod.split)
  have pure2: "mangledName e prefix fullName typeName = mangledName e prefix fullName typeName'"
    if "resultTypeFamily e typeName = resultTypeFamily e typeName'"
    using that by (simp add: mangledName_def resultTypeFamily_def Let_def)
  from scalar agg agg_limit win win_frame int64 struct pure1 pure2
  show ?thesis by blast
qed

theorem function_name_mangling_witness:
  "FormatSQL (FunctionCallNode
       (Some ([LiteralNode (Some ''1''), ColumnRefNode (Some (Column ''x'' ''t''))],
              ''STRUCT<a INT64>'', ''$make_struct'')))
     (demoEnv [] Map.empty) demoState
     = Inr (''zetasqlite_make_struct_struct(1,`x`)'', demoState)
   \<and> FormatSQL (AggregateFunctionCallNode
       (Some ([ColumnRefNode (Some (Column ''x'' ''t''))], ''INT64'', ''sum'',
              [(Column ''y'' ''t'', True)], True, Some (LiteralNode (Some ''3'')))))
     (demoEnv [] Map.empty) demoState
     = Inr (''zetasqlite_sum_int64(`x`,zetasqlite_order_by_string(`y`, false),zetasqlite_distinct_string(),zetasqlite_limit_string(3))'',
            demoState)
   \<and> FormatSQL (AnalyticFunctionCallNode
       (Some ([ColumnRefNode (Some (Column ''a'' ''t''))], ''INT64'', ''sum'', False,
              Some (0, (UnboundedPrecedingType, LiteralNode None),
                       (OffsetFollowingType, LiteralNode (Some ''2''))))))
     (demoEnv [] Map.empty) demoState
     = Inr (''( SELECT zetasqlite_window_sum_int64(`a`,frame_unit(0),boundary_start(),boundary_end(2),rowid()) FROM t )'',
            demoState\<lparr>orderColumnNames := [''`a`'']\<rparr>)
   \<and> mangledName (demoEnv [] Map.empty) ''zetasqlite_'' ''$sum'' ''Struct<x STRING>''
     = ''zetasqlite_sum_struct''
   \<and> mangledName (demoEnv [] Map.empty) ''zetasqlite_'' ''$sum'' ''INT64''
     = ''zetasqlite_sum_int64''"
proof -
  let ?e = "demoEnv [] Map.empty"
  let ?e1 = "?e\<lparr>analyticTableName := ''t''\<rparr>"
  let ?s1 = "demoState\<lparr>orderColumnNames := [''`a`'']\<rparr>"
  have cat1: "HasPrefix ''$make_struct'' ''$'' \<or> ''$make_struct'' \<in> normalFuncMap ?e"
    by (simp add: HasPrefix_def)
  have args1: "forEach (\<lambda>a u. FormatSQL a ?e u)
                 [LiteralNode (Some ''1''), ColumnRefNode (Some (Column ''x'' ''t''))] demoState
               = Inr ([''1'', ''`x`''], demoState)"
    by (simp add: formatColumnRef_def backquote_def)
  note scalar = function_name_mangling [where typeName = "''STRUCT<a INT64>''",
      THEN conjunct1, rule_format, OF cat1 args1]
  have cat2: "HasPrefix ''sum'' ''$'' \<or> ''sum'' \<in> aggregateFuncMap ?e"
    by simp
  have args2: "forEach (\<lambda>a u. FormatSQL a ?e u)
                 [ColumnRefNode (Some (Column ''x'' ''t''))] demoState
               = Inr ([''`x`''], demoState)"
    by (simp add: formatColumnRef_def backquote_def)
  have lim: "FormatSQL (LiteralNode (Some ''3'')) ?e demoState = Inr (''3'', demoState)"
    by simp
  note agg = function_name_mangling [where typeName = "''INT64''"
      and OrderByItemList = "[(Column ''y'' ''t'', True)]" and Distinct = True,
      THEN conjunct2, THEN conjunct1, rule_format, OF cat2 args2,
      THEN conjunct2, rule_format, OF lim]
  have cat3: "HasPrefix ''sum'' ''$'' \<or> ''sum'' \<in> windowFuncMap ?e"
    by simp
  have args3: "forEachCtx analyticArgument [ColumnRefNode (Some (Column ''a'' ''t''))] ?e demoState
               = Inr ([''`a`''], ?e1, ?s1)"
    by (simp add: analyticArgument_def formatColumnRef_def backquote_def demoState_def)
  have tbl: "analyticTableName ?e1 \<noteq> []"
    by simp
  have b1: "getWindowBoundaryOptionFuncSQL (\<lambda>x u. FormatSQL x ?e1 u) ?e1
              (UnboundedPrecedingType, LiteralNode None) True ?s1
            = Inr (''boundary_start()'', ?s1)"
    by (simp add: getWindowBoundaryOptionFuncSQL_def)
  have b2: "getWindowBoundaryOptionFuncSQL (\<lambda>x u. FormatSQL x ?e1 u) ?e1
              (OffsetFollowingType, LiteralNode (Some ''2'')) False ?s1
            = Inr (''boundary_end(2)'', ?s1)"
    by (simp add: getWindowBoundaryOptionFuncSQL_def)
  note win = function_name_mangling [where typeName = "''INT64''" and Distinct = False
      and FrameUnit = 0,
      THEN conjunct2, THEN conjunct2, THEN conjunct1, rule_format, OF cat3 args3 tbl,
      THEN conjunct2, rule_format, OF b1 b2]
  note str = function_name_mangling [where e = ?e and structType = "''Struct<x STRING>''",
      THEN conjunct2, THEN conjunct2, THEN conjunct2, THEN conjunct2, THEN conjunct1, rule_format]
  note int64 = function_name_mangling [where e = ?e,
      THEN conjunct2, THEN conjunct2, THEN conjunct2, THEN conjunct1]
  have family: "HasPrefix (ToLower (unicodeToLower ?e) ''Struct<x STRING>'') ''struct''"
    by (simp add: ToLower_def isASCII_def ToLowerChar_def HasPrefix_def)
  from scalar agg win str [OF family] int64 show ?thesis
    by (simp add: mangledName_def orderByOptionText_def ToLower_def isASCII_def ToLowerChar_def
        HasPrefix_def backquote_def showInt_def showNat.simps demoState_def
        del: FormatSQL.simps)
qed

end
